theory Spec2Isabelle
  imports Complex_Main
begin

section \<open>JavaScript values\<close>

text \<open>
  The two servers (\<^verbatim>\<open>src/server.js\<close> and \<^verbatim>\<open>src/unnamed/part_000\<close>) handle bodies
  that \<^verbatim>\<open>express.json()\<close> parsed from untrusted JSON, so every field may hold any value.
  A number is one of the special values or a finite one, written as the rational it
  denotes; rounding to binary64 is not fixed here (see \<open>round_binary64\<close> below) and there
  is one zero. A string is the list of its code units (those below 256 are representable).
  An object is the list of its own properties, each key once.
\<close>

datatype jsnum = NaN | PosInf | NegInf | Fin rat

datatype jsval =
    Undefined
  | Null
  | Bool bool
  | Num jsnum
  | Str string
  | Arr "jsval list"
  | Obj "(string \<times> jsval) list"

datatype error =
  TypeError | SyntaxError | RangeError | FetchFailed | QueryFailed | NotAllowedByCORS

text \<open>
  Built-ins of the language that the handlers call and that are left open: the decimal
  rendering of a finite number (\<^verbatim>\<open>Number.prototype.toString\<close>), the rounding of the
  mathematical value of a numeric literal to a number (which may overflow to an
  infinity), and \<^verbatim>\<open>JSON.parse\<close> (\<open>None\<close> when it throws a SyntaxError).
\<close>

record builtins =
  fin_to_string :: "rat \<Rightarrow> string"
  round_binary64 :: "rat \<Rightarrow> jsnum"
  JSON_parse :: "string \<Rightarrow> jsval option"

subsection \<open>Truthiness, typeof, property reads\<close>

fun truthy :: "jsval \<Rightarrow> bool" where
  "truthy Undefined = False"
| "truthy Null = False"
| "truthy (Bool b) = b"
| "truthy (Num n) = (n \<noteq> NaN \<and> n \<noteq> Fin 0)"
| "truthy (Str s) = (s \<noteq> [])"
| "truthy (Arr xs) = True"
| "truthy (Obj kvs) = True"

text \<open>\<^verbatim>\<open>a || b\<close> and \<^verbatim>\<open>a ?? b\<close>.\<close>

definition js_or :: "jsval \<Rightarrow> jsval \<Rightarrow> jsval" where
  "js_or a b = (if truthy a then a else b)"

definition nullish :: "jsval \<Rightarrow> jsval \<Rightarrow> jsval" where
  "nullish a b = (if a = Undefined \<or> a = Null then b else a)"

text \<open>\<^verbatim>\<open>typeof v === "string"\<close>, \<^verbatim>\<open>typeof v === "object"\<close>, \<^verbatim>\<open>Array.isArray(v)\<close>,
  \<^verbatim>\<open>Number.isFinite(v)\<close> (no coercion: false on every non-number).\<close>

fun is_string :: "jsval \<Rightarrow> bool" where
  "is_string (Str s) = True"
| "is_string _ = False"

fun typeof_object :: "jsval \<Rightarrow> bool" where
  "typeof_object Null = True"
| "typeof_object (Arr xs) = True"
| "typeof_object (Obj kvs) = True"
| "typeof_object _ = False"

fun isArray :: "jsval \<Rightarrow> bool" where
  "isArray (Arr xs) = True"
| "isArray _ = False"

fun isFinite :: "jsval \<Rightarrow> bool" where
  "isFinite (Num (Fin q)) = True"
| "isFinite _ = False"

definition is_digit :: "char \<Rightarrow> bool" where
  "is_digit c = (c \<in> set ''0123456789'')"

definition digit_of :: "char \<Rightarrow> nat" where
  "digit_of c = of_char c - 48"

definition nat_of_digits :: "string \<Rightarrow> nat" where
  "nat_of_digits ds = foldl (\<lambda>a c. 10 * a + digit_of c) 0 ds"

text \<open>A property key that is an array index: a decimal numeral without leading zero.\<close>

definition array_index :: "string \<Rightarrow> nat option" where
  "array_index k =
     (if k \<noteq> [] \<and> list_all is_digit k \<and> (k = ''0'' \<or> hd k \<noteq> CHR ''0'')
      then Some (nat_of_digits k) else None)"

text \<open>
  Reading property \<open>k\<close> of \<open>v\<close>. The handlers read only the names \<^verbatim>\<open>model\<close>,
  \<^verbatim>\<open>temperature\<close>, \<^verbatim>\<open>system\<close>, \<^verbatim>\<open>messages\<close>, \<^verbatim>\<open>role\<close>, \<^verbatim>\<open>content\<close>, \<^verbatim>\<open>choices\<close>,
  \<^verbatim>\<open>0\<close>, \<^verbatim>\<open>message\<close>, \<^verbatim>\<open>length\<close>, \<^verbatim>\<open>event\<close>, \<^verbatim>\<open>page\<close>, \<^verbatim>\<open>step\<close>, \<^verbatim>\<open>sectionId\<close>,
  \<^verbatim>\<open>sessionId\<close> and \<^verbatim>\<open>payload\<close>, none of which is inherited from a prototype except
  \<^verbatim>\<open>length\<close> of arrays and strings. A read on \<^verbatim>\<open>null\<close> or \<^verbatim>\<open>undefined\<close> happens in the
  source only through \<^verbatim>\<open>?.\<close>, which yields \<^verbatim>\<open>undefined\<close>, or behind a truthiness guard.
\<close>

fun get_prop :: "jsval \<Rightarrow> string \<Rightarrow> jsval" where
  "get_prop (Obj kvs) k = (case map_of kvs k of Some v \<Rightarrow> v | None \<Rightarrow> Undefined)"
| "get_prop (Arr xs) k =
     (if k = ''length'' then Num (Fin (of_nat (length xs)))
      else case array_index k of
             Some i \<Rightarrow> if i < length xs then xs ! i else Undefined
           | None \<Rightarrow> Undefined)"
| "get_prop (Str s) k =
     (if k = ''length'' then Num (Fin (of_nat (length s)))
      else case array_index k of
             Some i \<Rightarrow> if i < length s then Str [s ! i] else Undefined
           | None \<Rightarrow> Undefined)"
| "get_prop _ k = Undefined"

text \<open>\<^verbatim>\<open>const { k = dflt } = obj\<close>: the default replaces \<^verbatim>\<open>undefined\<close> only.\<close>

definition destructure :: "jsval \<Rightarrow> string \<Rightarrow> jsval \<Rightarrow> jsval" where
  "destructure obj k dflt = (let v = get_prop obj k in if v = Undefined then dflt else v)"

subsection \<open>String(v) and Number(v)\<close>

definition Number_toString :: "builtins \<Rightarrow> jsnum \<Rightarrow> string" where
  "Number_toString b n =
     (case n of NaN \<Rightarrow> ''NaN'' | PosInf \<Rightarrow> ''Infinity'' | NegInf \<Rightarrow> ''-Infinity''
      | Fin q \<Rightarrow> fin_to_string b q)"

text \<open>
  \<^verbatim>\<open>String(v)\<close>. An array is joined with commas, \<^verbatim>\<open>null\<close> and \<^verbatim>\<open>undefined\<close> elements
  giving the empty string. A plain object inherits \<^verbatim>\<open>Object.prototype.toString\<close> unless
  it has an own property \<^verbatim>\<open>toString\<close>; parsed from JSON that property is not callable,
  the inherited \<^verbatim>\<open>valueOf\<close> returns the object itself, and the conversion throws a
  TypeError.
\<close>

fun ToString :: "builtins \<Rightarrow> jsval \<Rightarrow> error + string"
  and join_elems :: "builtins \<Rightarrow> jsval list \<Rightarrow> error + string" where
  "ToString b Undefined = Inr ''undefined''"
| "ToString b Null = Inr ''null''"
| "ToString b (Bool x) = Inr (if x then ''true'' else ''false'')"
| "ToString b (Num n) = Inr (Number_toString b n)"
| "ToString b (Str s) = Inr s"
| "ToString b (Arr xs) = join_elems b xs"
| "ToString b (Obj kvs) =
     (if map_of kvs ''toString'' = None then Inr ''[object Object]'' else Inl TypeError)"
| "join_elems b [] = Inr ''''"
| "join_elems b (x # xs) =
     (case (if x = Undefined \<or> x = Null then Inr '''' else ToString b x) of
        Inl e \<Rightarrow> Inl e
      | Inr s \<Rightarrow>
          if xs = [] then Inr s
          else (case join_elems b xs of Inl e \<Rightarrow> Inl e | Inr t \<Rightarrow> Inr (s @ '','' @ t)))"

text \<open>White space and line terminators, as \<^verbatim>\<open>trim\<close> and the numeric grammar skip them.\<close>

definition is_ws :: "char \<Rightarrow> bool" where
  "is_ws c = (c \<in> set [CHR 0x09, CHR 0x0A, CHR 0x0B, CHR 0x0C, CHR 0x0D, CHR 0x20, CHR 0xA0])"

definition trim :: "string \<Rightarrow> string" where
  "trim s = rev (dropWhile is_ws (rev (dropWhile is_ws s)))"

definition pow10 :: "int \<Rightarrow> rat" where
  "pow10 e = (if 0 \<le> e then 10 ^ nat e else 1 / 10 ^ nat (- e))"

text \<open>An optional ExponentPart: \<^verbatim>\<open>e\<close> or \<^verbatim>\<open>E\<close>, an optional sign, at least one digit.\<close>

definition parse_exponent :: "string \<Rightarrow> int option" where
  "parse_exponent s =
     (case s of
        [] \<Rightarrow> Some 0
      | c # r \<Rightarrow>
          if c = CHR ''e'' \<or> c = CHR ''E'' then
            (let neg = (r \<noteq> [] \<and> hd r = CHR ''-'');
                 ds = (if r \<noteq> [] \<and> (hd r = CHR ''-'' \<or> hd r = CHR ''+'') then tl r else r)
             in if ds \<noteq> [] \<and> list_all is_digit ds
                then Some (if neg then - int (nat_of_digits ds) else int (nat_of_digits ds))
                else None)
          else None)"

text \<open>StrUnsignedDecimalLiteral other than \<^verbatim>\<open>Infinity\<close>: digits, an optional fraction,
  an optional exponent, with a digit on at least one side of the point.\<close>

definition parse_unsigned_decimal :: "string \<Rightarrow> rat option" where
  "parse_unsigned_decimal s =
     (let ip = takeWhile is_digit s;
          r1 = dropWhile is_digit s;
          dot = (r1 \<noteq> [] \<and> hd r1 = CHR ''.'');
          fp = (if dot then takeWhile is_digit (tl r1) else []);
          r2 = (if dot then dropWhile is_digit (tl r1) else r1)
      in if ip = [] \<and> fp = [] then None
         else (case parse_exponent r2 of
                 None \<Rightarrow> None
               | Some e \<Rightarrow>
                   Some ((of_nat (nat_of_digits ip)
                          + of_nat (nat_of_digits fp) / 10 ^ length fp) * pow10 e)))"

definition radix_digit :: "char \<Rightarrow> nat option" where
  "radix_digit c =
     (let n = (of_char c :: nat) in
      if 48 \<le> n \<and> n \<le> 57 then Some (n - 48)
      else if 97 \<le> n \<and> n \<le> 102 then Some (n - 87)
      else if 65 \<le> n \<and> n \<le> 70 then Some (n - 55)
      else None)"

definition nat_of_radix :: "nat \<Rightarrow> string \<Rightarrow> nat option" where
  "nat_of_radix base ds =
     (if ds \<noteq> [] \<and> list_all (\<lambda>c. case radix_digit c of Some d \<Rightarrow> d < base | None \<Rightarrow> False) ds
      then Some (foldl (\<lambda>a c. base * a + the (radix_digit c)) 0 ds)
      else None)"

text \<open>NonDecimalIntegerLiteral: \<^verbatim>\<open>0x\<close>, \<^verbatim>\<open>0o\<close>, \<^verbatim>\<open>0b\<close> in either case, unsigned.\<close>

definition parse_radix :: "string \<Rightarrow> nat option" where
  "parse_radix s =
     (case s of
        z # p # ds \<Rightarrow>
          if z \<noteq> CHR ''0'' then None
          else if p = CHR ''x'' \<or> p = CHR ''X'' then nat_of_radix 16 ds
          else if p = CHR ''o'' \<or> p = CHR ''O'' then nat_of_radix 8 ds
          else if p = CHR ''b'' \<or> p = CHR ''B'' then nat_of_radix 2 ds
          else None
      | _ \<Rightarrow> None)"

text \<open>StringToNumber: the empty or blank string is 0, anything outside the grammar is NaN.\<close>

definition StringToNumber :: "builtins \<Rightarrow> string \<Rightarrow> jsnum" where
  "StringToNumber b s =
     (let t = trim s in
      if t = [] then Fin 0
      else (case parse_radix t of
              Some n \<Rightarrow> round_binary64 b (of_nat n)
            | None \<Rightarrow>
                (let neg = (hd t = CHR ''-'');
                     u = (if hd t = CHR ''-'' \<or> hd t = CHR ''+'' then tl t else t)
                 in if u = ''Infinity'' then (if neg then NegInf else PosInf)
                    else (case parse_unsigned_decimal u of
                            None \<Rightarrow> NaN
                          | Some q \<Rightarrow> round_binary64 b (if neg then - q else q)))))"

text \<open>\<^verbatim>\<open>Number(v)\<close>: an array or object is first converted to a primitive, which for these
  values is the string \<^verbatim>\<open>String(v)\<close> gives, or the same TypeError.\<close>

fun ToNumber :: "builtins \<Rightarrow> jsval \<Rightarrow> error + jsnum" where
  "ToNumber b Undefined = Inr NaN"
| "ToNumber b Null = Inr (Fin 0)"
| "ToNumber b (Bool x) = Inr (Fin (if x then 1 else 0))"
| "ToNumber b (Num n) = Inr n"
| "ToNumber b (Str s) = Inr (StringToNumber b s)"
| "ToNumber b v =
     (case ToString b v of Inl e \<Rightarrow> Inl e | Inr s \<Rightarrow> Inr (StringToNumber b s))"

subsection \<open>Numbers compared, strings sliced, values serialised\<close>

text \<open>\<^verbatim>\<open>a < b\<close> on numbers: false whenever either side is NaN.\<close>

fun num_less :: "jsnum \<Rightarrow> jsnum \<Rightarrow> bool" where
  "num_less NaN y = False"
| "num_less x NaN = False"
| "num_less PosInf y = False"
| "num_less x NegInf = False"
| "num_less NegInf y = True"
| "num_less x PosInf = True"
| "num_less (Fin x) (Fin y) = (x < y)"

text \<open>
  \<^verbatim>\<open>v.slice(0, n)\<close>. The source calls it on \<^verbatim>\<open>event\<close> after the \<^verbatim>\<open>typeof\<close> check, on the
  response text and on \<^verbatim>\<open>lastUser\<close>, all strings (lemma \<open>lastUser_string\<close> below).
\<close>

fun slice0 :: "nat \<Rightarrow> jsval \<Rightarrow> jsval" where
  "slice0 n (Str s) = Str (take n s)"
| "slice0 n (Arr xs) = Arr (take n xs)"
| "slice0 n v = Undefined"

text \<open>
  The JSON value that the text \<^verbatim>\<open>JSON.stringify(v)\<close> denotes, for \<open>v\<close> an object or an
  array (the text itself is not modelled): a property whose value is \<^verbatim>\<open>undefined\<close> is
  left out, an \<^verbatim>\<open>undefined\<close> array element and every number that is not finite become
  \<^verbatim>\<open>null\<close>.
\<close>

fun json_of :: "jsval \<Rightarrow> jsval"
  and json_elems :: "jsval list \<Rightarrow> jsval list"
  and json_props :: "(string \<times> jsval) list \<Rightarrow> (string \<times> jsval) list" where
  "json_of (Num n) = (case n of Fin q \<Rightarrow> Num n | _ \<Rightarrow> Null)"
| "json_of (Arr xs) = Arr (json_elems xs)"
| "json_of (Obj kvs) = Obj (json_props kvs)"
| "json_of v = v"
| "json_elems [] = []"
| "json_elems (x # xs) = (if x = Undefined then Null else json_of x) # json_elems xs"
| "json_props [] = []"
| "json_props ((k, v) # kvs) =
     (if v = Undefined then json_props kvs else (k, json_of v) # json_props kvs)"

section \<open>Requests, responses, environment, analytics state\<close>

record request =
  origin :: "string option"
  x_forwarded_for :: "string option"
  user_agent_header :: "string option"
  x_session_id :: "string option"
  referer :: "string option"
  remoteAddress :: "string option"
  req_body :: jsval

text \<open>What the caller receives: the status and the body, \<open>None\<close> when no body is sent.\<close>

record response =
  status :: nat
  body :: "jsval option"

text \<open>
  \<^verbatim>\<open>res.status(s).json(v)\<close>, and \<^verbatim>\<open>res.json(v)\<close> for \<open>s = 200\<close>. The body is the text
  \<^verbatim>\<open>JSON.stringify(v)\<close>, here the JSON value it denotes. No body is sent with an
  informational status, with 204 and with 304, nor (Express from 4.18) with 205. A status
  outside 100..999 is refused with a RangeError, thrown inside the handler's \<^verbatim>\<open>try\<close>. The
  handlers call this with 200, 400, 500 and with an upstream status outside 200..299.
\<close>

definition no_body :: "nat \<Rightarrow> bool" where
  "no_body s = (s < 200 \<or> s = 204 \<or> s = 205 \<or> s = 304)"

definition send_json :: "nat \<Rightarrow> jsval \<Rightarrow> response" where
  "send_json s v = \<lparr>status = s, body = (if no_body s then None else Some (json_of v))\<rparr>"

definition res_json :: "nat \<Rightarrow> jsval \<Rightarrow> error + response" where
  "res_json s v = (if s < 100 \<or> 999 < s then Inl RangeError else Inr (send_json s v))"

text \<open>What \<^verbatim>\<open>fetch\<close> is called with, and what it resolves to; \<^verbatim>\<open>r.ok\<close> is a status in
  200..299.\<close>

record fetch_request =
  url :: string
  http_method :: string
  authorization :: string
  content_type :: string
  json_body :: jsval

record upstream_response =
  r_status :: nat
  r_text :: string

definition ok :: "upstream_response \<Rightarrow> bool" where
  "ok r = (200 \<le> r_status r \<and> r_status r \<le> 299)"

text \<open>
  \<^verbatim>\<open>process.env\<close>, and the pool: \<open>None\<close> when \<^verbatim>\<open>DATABASE_URL\<close> is unset, otherwise the
  database's answer to an INSERT with the given parameters (\<open>False\<close>: the query rejects).
\<close>

record env =
  OPENAI_API_KEY :: "string option"
  OPENAI_API_BASE :: "string option"
  ANALYTICS_SAMPLE :: "string option"
  ANALYTICS_LOG_CHAT_CONTENT :: "string option"
  pool :: "(jsval list \<Rightarrow> bool) option"

text \<open>\<^verbatim>\<open>process.env.X || d\<close> and a header read as a value.\<close>

definition env_or :: "string option \<Rightarrow> string \<Rightarrow> string" where
  "env_or v d = (case v of Some s \<Rightarrow> if s = [] then d else s | None \<Rightarrow> d)"

definition header :: "string option \<Rightarrow> jsval" where
  "header h = (case h of Some s \<Rightarrow> Str s | None \<Rightarrow> Undefined)"

record row =
  session_id :: jsval
  user_agent :: jsval
  ip :: jsval
  page :: jsval
  step :: jsval
  section_id :: jsval
  event_name :: jsval
  payload :: jsval

datatype log_entry =
    LoggerInfo "(string \<times> jsval) list" string
  | LoggerError error string
  | ConsoleError string error

text \<open>The rows inserted into \<^verbatim>\<open>events\<close> (the eight parameters of each INSERT) and the
  calls made to the logger and to \<^verbatim>\<open>console.error\<close>, in order. Which of them the configured
  log level prints is not modelled.\<close>

record world =
  events :: "jsval list list"
  logged :: "log_entry list"

section \<open>Origin guard (both files, the cors origin callback)\<close>

definition ALLOWED :: "string set" where
  "ALLOWED = {''https://jiaruilei.github.io'', ''http://localhost:3000'',
              ''http://localhost:5173'', ''http://localhost:5500''}"

text \<open>\<^verbatim>\<open>!origin\<close> holds for a missing header and for an empty one.\<close>

definition cors_origin :: "string option \<Rightarrow> error + bool" where
  "cors_origin orig =
     (if \<not> truthy (header orig) \<or> the orig \<in> ALLOWED then Inr True
      else Inl NotAllowedByCORS)"

section \<open>Analytics (part_000)\<close>

definition clientIp :: "request \<Rightarrow> jsval" where
  "clientIp req =
     (case x_forwarded_for req of
        Some fwd \<Rightarrow> Str (trim (takeWhile (\<lambda>c. c \<noteq> CHR '','') fwd))
      | None \<Rightarrow> js_or (header (remoteAddress req)) Null)"

definition insert_params :: "row \<Rightarrow> jsval list" where
  "insert_params r =
     [js_or (session_id r) Null,
      js_or (user_agent r) Null,
      js_or (ip r) Null,
      js_or (page r) Null,
      if isFinite (step r) then step r else Null,
      js_or (section_id r) Null,
      event_name r,
      js_or (payload r) Null]"

definition row_props :: "row \<Rightarrow> (string \<times> jsval) list" where
  "row_props r =
     [(''session_id'', session_id r), (''user_agent'', user_agent r), (''ip'', ip r),
      (''page'', page r), (''step'', step r), (''section_id'', section_id r),
      (''event_name'', event_name r), (''payload'', payload r)]"

text \<open>\<^verbatim>\<open>recordEvent\<close>: with a pool the awaited query may reject, and the rejection
  propagates to the caller; without one the row is logged.\<close>

definition recordEvent :: "env \<Rightarrow> row \<Rightarrow> world \<Rightarrow> error + world" where
  "recordEvent e r w =
     (case pool e of
        Some accepts \<Rightarrow>
          if accepts (insert_params r)
          then Inr (w\<lparr>events := events w @ [insert_params r]\<rparr>)
          else Inl QueryFailed
      | None \<Rightarrow>
          Inr (w\<lparr>logged := logged w @
                 [LoggerInfo ((''type'', Str ''analytics'') # row_props r) ''event'']\<rparr>))"

section \<open>POST /api/track (part_000)\<close>

definition track_row :: "request \<Rightarrow> jsval \<Rightarrow> row" where
  "track_row req bd =
     (let event = get_prop bd ''event'';
          page = get_prop bd ''page'';
          step = get_prop bd ''step'';
          sectionId = get_prop bd ''sectionId'';
          sessionId = get_prop bd ''sessionId'';
          payload = get_prop bd ''payload''
      in \<lparr>session_id = (if is_string sessionId then sessionId else Null),
          user_agent = js_or (header (user_agent_header req)) (Str []),
          ip = clientIp req,
          page = (if is_string page then page else Null),
          step = (if isFinite step then step else Null),
          section_id = (if is_string sectionId then sectionId else Null),
          event_name = slice0 64 event,
          payload = (if truthy payload \<and> typeof_object payload then payload else Null)\<rparr>)"

definition sample_rate :: "builtins \<Rightarrow> env \<Rightarrow> jsnum" where
  "sample_rate b e =
     StringToNumber b (case ANALYTICS_SAMPLE e of Some s \<Rightarrow> s | None \<Rightarrow> ''1'')"

text \<open>\<open>rnd\<close> is the value \<^verbatim>\<open>Math.random()\<close> returns in this request.\<close>

definition api_track :: "builtins \<Rightarrow> env \<Rightarrow> rat \<Rightarrow> request \<Rightarrow> world \<Rightarrow> response \<times> world" where
  "api_track b e rnd req w =
     (let bd = js_or (req_body req) (Obj []);
          event = get_prop bd ''event''
      in if \<not> truthy event \<or> \<not> is_string event then
           (send_json 400 (Obj [(''error'', Str ''Missing or invalid 'event' field'')]), w)
         else
           (let r = track_row req bd;
                sample = sample_rate b e
            in if num_less sample (Fin 1) \<and> num_less sample (Fin rnd) then
                 (send_json 200 (Obj [(''ok'', Bool True), (''sampled'', Bool False)]), w)
               else
                 (case recordEvent e r w of
                    Inr w' \<Rightarrow> (send_json 200 (Obj [(''ok'', Bool True)]), w')
                  | Inl err \<Rightarrow>
                      (send_json 500 (Obj [(''error'', Str ''track failed'')]),
                       w\<lparr>logged := logged w @ [LoggerError err ''track failed'']\<rparr>))))"

section \<open>POST /api/chat (part_000)\<close>

subsection \<open>The sanitizer, lines 138 to 148\<close>

text \<open>The filter's test \<^verbatim>\<open>m && typeof m.role === "string" && typeof m.content === "string"\<close>.\<close>

definition well_formed :: "jsval \<Rightarrow> bool" where
  "well_formed m =
     (truthy m \<and> is_string (get_prop m ''role'') \<and> is_string (get_prop m ''content''))"

text \<open>\<^verbatim>\<open>.map((m) => ({ role: m.role, content: String(m.content) }))\<close>; a throwing
  \<^verbatim>\<open>String\<close> would abort the map.\<close>

fun map_turns :: "builtins \<Rightarrow> jsval list \<Rightarrow> error + jsval list" where
  "map_turns b [] = Inr []"
| "map_turns b (m # ms) =
     (case ToString b (get_prop m ''content'') of
        Inl e \<Rightarrow> Inl e
      | Inr c \<Rightarrow>
          (case map_turns b ms of
             Inl e \<Rightarrow> Inl e
           | Inr ts \<Rightarrow> Inr (Obj [(''role'', get_prop m ''role''), (''content'', Str c)] # ts)))"

definition clean_messages :: "builtins \<Rightarrow> jsval \<Rightarrow> error + jsval list" where
  "clean_messages b messages =
     map_turns b (filter well_formed (case messages of Arr xs \<Rightarrow> xs | _ \<Rightarrow> []))"

text \<open>\<^verbatim>\<open>m.role === r\<close>.\<close>

definition has_role :: "string \<Rightarrow> jsval \<Rightarrow> bool" where
  "has_role r m = (get_prop m ''role'' = Str r)"

definition sanitize :: "builtins \<Rightarrow> jsval \<Rightarrow> error + jsval list" where
  "sanitize b bd =
     (let system = destructure bd ''system'' (Str []);
          messages = destructure bd ''messages'' (Arr [])
      in case clean_messages b messages of
           Inl e \<Rightarrow> Inl e
         | Inr clean \<Rightarrow>
             if truthy system \<and> \<not> list_ex (has_role ''system'') clean then
               (case ToString b system of
                  Inl e \<Rightarrow> Inl e
                | Inr s \<Rightarrow> Inr (Obj [(''role'', Str ''system''), (''content'', Str s)] # clean))
             else Inr clean)"

subsection \<open>The upstream request, lines 150 to 161\<close>

text \<open>\<^verbatim>\<open>isNaN(Number(temperature)) ? 0.2 : Number(temperature)\<close>.\<close>

definition effective_temperature :: "builtins \<Rightarrow> jsval \<Rightarrow> error + jsnum" where
  "effective_temperature b temperature =
     (case ToNumber b temperature of
        Inl e \<Rightarrow> Inl e
      | Inr n \<Rightarrow> Inr (if n = NaN then Fin (2 / 10) else n))"

text \<open>The object handed to \<^verbatim>\<open>JSON.stringify\<close>, then the JSON value of the text sent.\<close>

definition upstream_object :: "builtins \<Rightarrow> jsval \<Rightarrow> jsval list \<Rightarrow> error + jsval" where
  "upstream_object b bd clean =
     (let model = destructure bd ''model'' (Str ''gpt-4o-mini'');
          temperature = destructure bd ''temperature'' (Num (Fin (2 / 10)))
      in case effective_temperature b temperature of
           Inl e \<Rightarrow> Inl e
         | Inr t \<Rightarrow>
             Inr (Obj [(''model'', model), (''temperature'', Num t), (''messages'', Arr clean)]))"

definition upstream_request :: "string \<Rightarrow> string \<Rightarrow> jsval \<Rightarrow> fetch_request" where
  "upstream_request key base obj =
     \<lparr>url = base @ ''/chat/completions'',
      http_method = ''POST'',
      authorization = ''Bearer '' @ key,
      content_type = ''application/json'',
      json_body = json_of obj\<rparr>"

subsection \<open>The two analytics rows, lines 165 to 174 and 182 to 200\<close>

definition chat_error_row :: "request \<Rightarrow> upstream_response \<Rightarrow> row" where
  "chat_error_row req r =
     \<lparr>session_id = js_or (header (x_session_id req)) Null,
      user_agent = js_or (header (user_agent_header req)) (Str []),
      ip = clientIp req,
      page = js_or (header (referer req)) Null,
      step = Null,
      section_id = Null,
      event_name = Str ''coach_chat_error'',
      payload = Obj [(''status'', Num (Fin (of_nat (r_status r)))),
                     (''body'', slice0 512 (Str (r_text r)))]\<rparr>"

text \<open>\<^verbatim>\<open>data?.choices?.[0]?.message?.content ?? ""\<close>: \<open>get_prop\<close> of \<^verbatim>\<open>null\<close> or
  \<^verbatim>\<open>undefined\<close> is \<^verbatim>\<open>undefined\<close>, which is what each \<^verbatim>\<open>?.\<close> yields there.\<close>

definition reply_of :: "jsval \<Rightarrow> jsval" where
  "reply_of data =
     nullish (get_prop (get_prop (get_prop (get_prop data ''choices'') ''0'') ''message'')
                ''content'')
             (Str [])"

text \<open>\<^verbatim>\<open>[...clean].reverse().find((m) => m.role === "user")?.content || ""\<close>.\<close>

definition lastUser_of :: "jsval list \<Rightarrow> jsval" where
  "lastUser_of clean =
     js_or (case find (has_role ''user'') (rev clean) of
              Some m \<Rightarrow> get_prop m ''content''
            | None \<Rightarrow> Undefined)
           (Str [])"

definition logChatContent :: "env \<Rightarrow> bool" where
  "logChatContent e = (env_or (ANALYTICS_LOG_CHAT_CONTENT e) ''false'' = ''true'')"

definition chat_row :: "builtins \<Rightarrow> env \<Rightarrow> request \<Rightarrow> jsval \<Rightarrow> jsval list \<Rightarrow> jsval \<Rightarrow> error + row" where
  "chat_row b e req bd clean reply =
     (let model = destructure bd ''model'' (Str ''gpt-4o-mini'');
          temperature = destructure bd ''temperature'' (Num (Fin (2 / 10)));
          lastUser = lastUser_of clean
      in case ToNumber b temperature of
           Inl err \<Rightarrow> Inl err
         | Inr t \<Rightarrow>
             Inr \<lparr>session_id = js_or (header (x_session_id req)) Null,
                  user_agent = js_or (header (user_agent_header req)) (Str []),
                  ip = clientIp req,
                  page = js_or (header (referer req)) Null,
                  step = Null,
                  section_id = Null,
                  event_name = Str ''coach_chat'',
                  payload = Obj [(''model'', model),
                                 (''temperature'', Num t),
                                 (''prompt_len'', get_prop lastUser ''length''),
                                 (''prompt_sample'',
                                    if logChatContent e then slice0 500 lastUser else Undefined),
                                 (''reply_len'', get_prop reply ''length'')]\<rparr>)"

subsection \<open>The handler\<close>

text \<open>Lines 138 to 163, up to the response of the upstream: \<open>Inl\<close> is a thrown exception
  or a rejected promise. \<open>fetch\<close> stands for the upstream: what it answers to each
  request.\<close>

definition chat_upstream ::
  "builtins \<Rightarrow> env \<Rightarrow> (fetch_request \<Rightarrow> error + upstream_response) \<Rightarrow> string \<Rightarrow>
   jsval \<Rightarrow> error + jsval list \<times> upstream_response" where
  "chat_upstream b e fetch key bd =
     (case sanitize b bd of
        Inl err \<Rightarrow> Inl err
      | Inr clean \<Rightarrow>
          (case upstream_object b bd clean of
             Inl err \<Rightarrow> Inl err
           | Inr obj \<Rightarrow>
               (case fetch (upstream_request key
                              (env_or (OPENAI_API_BASE e) ''https://api.openai.com/v1'') obj) of
                  Inl err \<Rightarrow> Inl err
                | Inr r \<Rightarrow> Inr (clean, r))))"

text \<open>The body of the \<^verbatim>\<open>try\<close> after the key check: what it returns or throws, and the
  state it leaves (an event recorded before a throw stays recorded).\<close>

definition chat_try ::
  "builtins \<Rightarrow> env \<Rightarrow> (fetch_request \<Rightarrow> error + upstream_response) \<Rightarrow> string \<Rightarrow>
   request \<Rightarrow> world \<Rightarrow> (error + response) \<times> world" where
  "chat_try b e fetch key req w =
     (let bd = js_or (req_body req) (Obj []) in
      case chat_upstream b e fetch key bd of
        Inl err \<Rightarrow> (Inl err, w)
      | Inr (clean, r) \<Rightarrow>
          if \<not> ok r then
            (case recordEvent e (chat_error_row req r) w of
               Inl err \<Rightarrow> (Inl err, w)
             | Inr w' \<Rightarrow> (res_json (r_status r) (Obj [(''error'', Str (r_text r))]), w'))
          else
            (case JSON_parse b (r_text r) of
               None \<Rightarrow> (Inl SyntaxError, w)
             | Some data \<Rightarrow>
                 (let reply = reply_of data in
                  case chat_row b e req bd clean reply of
                    Inl err \<Rightarrow> (Inl err, w)
                  | Inr cr \<Rightarrow>
                      (case recordEvent e cr w of
                         Inl err \<Rightarrow> (Inl err, w)
                       | Inr w' \<Rightarrow> (res_json 200 (Obj [(''reply'', reply)]), w')))))"

definition api_chat ::
  "builtins \<Rightarrow> env \<Rightarrow> (fetch_request \<Rightarrow> error + upstream_response) \<Rightarrow>
   request \<Rightarrow> world \<Rightarrow> response \<times> world" where
  "api_chat b e fetch req w =
     (let key = env_or (OPENAI_API_KEY e) [] in
      if key = [] then
        (send_json 500 (Obj [(''error'', Str ''Missing OPENAI_API_KEY'')]), w)
      else
        (case chat_try b e fetch key req w of
           (Inr res, w') \<Rightarrow> (res, w')
         | (Inl err, w') \<Rightarrow>
             (send_json 500 (Obj [(''error'', Str ''Proxy error'')]),
              w'\<lparr>logged := logged w' @ [LoggerError err ''Proxy error'']\<rparr>)))"

section \<open>POST /api/chat (src/server.js)\<close>

definition server_well_formed :: "jsval \<Rightarrow> bool" where
  "server_well_formed m =
     (truthy m \<and> is_string (get_prop m ''role'') \<and> is_string (get_prop m ''content''))"

fun server_map_turns :: "builtins \<Rightarrow> jsval list \<Rightarrow> error + jsval list" where
  "server_map_turns b [] = Inr []"
| "server_map_turns b (m # ms) =
     (case ToString b (get_prop m ''content'') of
        Inl e \<Rightarrow> Inl e
      | Inr c \<Rightarrow>
          (case server_map_turns b ms of
             Inl e \<Rightarrow> Inl e
           | Inr ts \<Rightarrow> Inr (Obj [(''role'', get_prop m ''role''), (''content'', Str c)] # ts)))"

text \<open>Lines 39 to 50.\<close>

definition server_sanitize :: "builtins \<Rightarrow> jsval \<Rightarrow> error + jsval list" where
  "server_sanitize b bd =
     (let system = destructure bd ''system'' (Str []);
          messages = destructure bd ''messages'' (Arr []);
          messages = (if isArray messages then messages else Arr [])
      in case server_map_turns b
                (filter server_well_formed (case messages of Arr xs \<Rightarrow> xs | _ \<Rightarrow> [])) of
           Inl e \<Rightarrow> Inl e
         | Inr clean \<Rightarrow>
             if truthy system \<and> \<not> list_ex (\<lambda>m. get_prop m ''role'' = Str ''system'') clean then
               (case ToString b system of
                  Inl e \<Rightarrow> Inl e
                | Inr s \<Rightarrow> Inr (Obj [(''role'', Str ''system''), (''content'', Str s)] # clean))
             else Inr clean)"

text \<open>Lines 52 to 63.\<close>

definition server_request ::
  "builtins \<Rightarrow> string \<Rightarrow> string \<Rightarrow> jsval \<Rightarrow> jsval list \<Rightarrow> error + fetch_request" where
  "server_request b key base bd clean =
     (let model = destructure bd ''model'' (Str ''gpt-4o-mini'');
          temperature = destructure bd ''temperature'' (Num (Fin (2 / 10)))
      in case ToNumber b temperature of
           Inl e \<Rightarrow> Inl e
         | Inr n \<Rightarrow>
             Inr \<lparr>url = base @ ''/chat/completions'',
                  http_method = ''POST'',
                  authorization = ''Bearer '' @ key,
                  content_type = ''application/json'',
                  json_body =
                    json_of (Obj [(''model'', model),
                                  (''temperature'', Num (if n = NaN then Fin (2 / 10) else n)),
                                  (''messages'', Arr clean)])\<rparr>)"

definition server_api_chat ::
  "builtins \<Rightarrow> env \<Rightarrow> (fetch_request \<Rightarrow> error + upstream_response) \<Rightarrow>
   request \<Rightarrow> world \<Rightarrow> response \<times> world" where
  "server_api_chat b e fetch req w =
     (let key = env_or (OPENAI_API_KEY e) [];
          base = env_or (OPENAI_API_BASE e) ''https://api.openai.com/v1''
      in if key = [] then
           (send_json 500 (Obj [(''error'', Str ''Missing OPENAI_API_KEY'')]), w)
         else
           (let bd = js_or (req_body req) (Obj []);
                tried =
                  (case server_sanitize b bd of
                     Inl err \<Rightarrow> Inl err
                   | Inr clean \<Rightarrow>
                   (case server_request b key base bd clean of
                     Inl err \<Rightarrow> Inl err
                   | Inr rq \<Rightarrow>
                   (case fetch rq of
                     Inl err \<Rightarrow> Inl err
                   | Inr r \<Rightarrow>
                       if \<not> ok r then
                         res_json (r_status r) (Obj [(''error'', Str (r_text r))])
                       else
                         (case JSON_parse b (r_text r) of
                            None \<Rightarrow> Inl SyntaxError
                          | Some data \<Rightarrow>
                              res_json 200
                                (Obj [(''reply'',
                                   nullish (get_prop (get_prop (get_prop (get_prop data
                                              ''choices'') ''0'') ''message'') ''content'')
                                           (Str []))])))))
            in case tried of
                 Inr res \<Rightarrow> (res, w)
               | Inl err \<Rightarrow>
                   (send_json 500 (Obj [(''error'', Str ''Proxy error'')]),
                    w\<lparr>logged := logged w @ [ConsoleError ''Proxy error:'' err]\<rparr>)))"

section \<open>The application: origin guard, then the route\<close>

datatype endpoint = GET_health | POST_track | POST_chat

datatype outcome = Rejected error | Responded response

text \<open>
  \<^verbatim>\<open>app.use(cors(...))\<close> is registered before every route of part_000: when the callback
  reports an error the middleware passes it on and no route handler runs. The route
  \<^verbatim>\<open>GET /\<close>, which answers a fixed text, is left out.
\<close>

definition app ::
  "builtins \<Rightarrow> env \<Rightarrow> (fetch_request \<Rightarrow> error + upstream_response) \<Rightarrow> rat \<Rightarrow>
   endpoint \<Rightarrow> request \<Rightarrow> world \<Rightarrow> outcome \<times> world" where
  "app b e fetch rnd ep req w =
     (case cors_origin (origin req) of
        Inl err \<Rightarrow> (Rejected err, w)
      | Inr allow \<Rightarrow>
          (case ep of
             GET_health \<Rightarrow> (Responded (send_json 200 (Obj [(''ok'', Bool True)])), w)
           | POST_track \<Rightarrow> (let (res, w') = api_track b e rnd req w in (Responded res, w'))
           | POST_chat \<Rightarrow> (let (res, w') = api_chat b e fetch req w in (Responded res, w'))))"

text \<open>The same guard stands before the routes of src/server.js.\<close>

datatype server_endpoint = Server_GET_health | Server_POST_chat

definition server_app ::
  "builtins \<Rightarrow> env \<Rightarrow> (fetch_request \<Rightarrow> error + upstream_response) \<Rightarrow>
   server_endpoint \<Rightarrow> request \<Rightarrow> world \<Rightarrow> outcome \<times> world" where
  "server_app b e fetch ep req w =
     (case cors_origin (origin req) of
        Inl err \<Rightarrow> (Rejected err, w)
      | Inr allow \<Rightarrow>
          (case ep of
             Server_GET_health \<Rightarrow>
               (Responded (send_json 200 (Obj [(''ok'', Bool True)])), w)
           | Server_POST_chat \<Rightarrow>
               (let (res, w') = server_api_chat b e fetch req w in (Responded res, w'))))"

section \<open>A concrete setting\<close>

text \<open>
  An instance of the open built-ins for the concrete runs below. It agrees with the
  language on every argument those runs reach: \<^verbatim>\<open>String(5)\<close> is \<^verbatim>\<open>"5"\<close>, the literals
  used are small and exactly representable, the two texts are the JSON of the objects
  shown (\<^verbatim>\<open>1e999\<close> is read as Infinity) and the text \<^verbatim>\<open>oops\<close> is not JSON.
\<close>

definition sample_builtins :: builtins where
  \<open>sample_builtins =
     \<lparr>fin_to_string = (\<lambda>q. if q = 5 then ''5'' else ''0''),
      round_binary64 = Fin,
      JSON_parse = (\<lambda>t. if t = ''{"choices":[{"message":{"content":"Hi there"}}]}''
                         then Some (Obj [(''choices'',
                                Arr [Obj [(''message'', Obj [(''content'', Str ''Hi there'')])]])])
                         else if t = ''{"choices":[{"message":{"content":1e999}}]}''
                         then Some (Obj [(''choices'',
                                Arr [Obj [(''message'', Obj [(''content'', Num PosInf)])]])])
                         else None)\<rparr>\<close>

definition sample_env :: env where
  "sample_env =
     \<lparr>OPENAI_API_KEY = Some ''sk-test'', OPENAI_API_BASE = None, ANALYTICS_SAMPLE = None,
      ANALYTICS_LOG_CHAT_CONTENT = None, pool = None\<rparr>"

definition sample_request :: "jsval \<Rightarrow> request" where
  "sample_request bd =
     \<lparr>origin = None, x_forwarded_for = None, user_agent_header = Some ''curl/8'',
      x_session_id = None, referer = None, remoteAddress = Some ''127.0.0.1'',
      req_body = bd\<rparr>"

definition empty_world :: world where
  "empty_world = \<lparr>events = [], logged = []\<rparr>"

text \<open>Upstreams that answer every request alike.\<close>

definition upstream_429 :: "fetch_request \<Rightarrow> error + upstream_response" where
  "upstream_429 rq = Inr \<lparr>r_status = 429, r_text = ''rate limited''\<rparr>"

definition upstream_hi :: "fetch_request \<Rightarrow> error + upstream_response" where
  \<open>upstream_hi rq =
     Inr \<lparr>r_status = 200, r_text = ''{"choices":[{"message":{"content":"Hi there"}}]}''\<rparr>\<close>

definition upstream_oops :: "fetch_request \<Rightarrow> error + upstream_response" where
  "upstream_oops rq = Inr \<lparr>r_status = 200, r_text = ''oops''\<rparr>"

definition upstream_304 :: "fetch_request \<Rightarrow> error + upstream_response" where
  "upstream_304 rq = Inr \<lparr>r_status = 304, r_text = []\<rparr>"

definition upstream_big :: "fetch_request \<Rightarrow> error + upstream_response" where
  \<open>upstream_big rq =
     Inr \<lparr>r_status = 200, r_text = ''{"choices":[{"message":{"content":1e999}}]}''\<rparr>\<close>

text \<open>A configured database that rejects, or accepts, every INSERT.\<close>

definition rejecting_env :: env where
  "rejecting_env = sample_env\<lparr>pool := Some (\<lambda>ps. False)\<rparr>"

definition accepting_env :: env where
  "accepting_env = sample_env\<lparr>pool := Some (\<lambda>ps. True)\<rparr>"

text \<open>A database that accepts the rows named \<^verbatim>\<open>coach_chat\<close> and rejects every other.\<close>

definition coach_chat_only_env :: env where
  "coach_chat_only_env = sample_env\<lparr>pool := Some (\<lambda>ps. ps ! 6 = Str ''coach_chat'')\<rparr>"

text \<open>An upstream that answers like \<open>F\<close> the requests whose body carries the temperature
  \<open>t\<close>, and is unreachable for every other request.\<close>

definition only_temperature ::
  "jsval \<Rightarrow> (fetch_request \<Rightarrow> error + upstream_response) \<Rightarrow>
   fetch_request \<Rightarrow> error + upstream_response" where
  "only_temperature t F rq =
     (if get_prop (json_body rq) ''temperature'' = t then F rq else Inl FetchFailed)"

section \<open>Basic facts\<close>

lemma is_string_iff: "is_string v \<longleftrightarrow> (\<exists>s. v = Str s)"
  by (cases v) auto

lemma array_index_role [simp]: "array_index ''role'' = None"
  by (simp add: array_index_def is_digit_def)

lemma array_index_content [simp]: "array_index ''content'' = None"
  by (simp add: array_index_def is_digit_def)

lemma well_formed_iff:
  "well_formed m \<longleftrightarrow>
     (\<exists>kvs r c. m = Obj kvs \<and> map_of kvs ''role'' = Some (Str r)
                \<and> map_of kvs ''content'' = Some (Str c))"
  by (cases m) (auto simp: well_formed_def is_string_iff split: option.splits)

lemma well_formed_eq:
  "well_formed = (\<lambda>m. \<exists>kvs r c. m = Obj kvs \<and> map_of kvs ''role'' = Some (Str r)
                              \<and> map_of kvs ''content'' = Some (Str c))"
  by (rule ext) (rule well_formed_iff)

lemma map_turns_well_formed:
  "map_turns b (filter well_formed xs) =
     Inr (map (\<lambda>m. Obj [(''role'', get_prop m ''role''), (''content'', get_prop m ''content'')])
            (filter well_formed xs))"
proof (induction xs)
  case Nil
  show ?case by simp
next
  case (Cons m xs)
  show ?case
  proof (cases "well_formed m")
    case True
    then obtain c where "get_prop m ''content'' = Str c"
      by (auto simp: well_formed_def is_string_iff)
    with True Cons show ?thesis by simp
  next
    case False
    with Cons show ?thesis by simp
  qed
qed

lemma clean_messages_eq:
  "clean_messages b v =
     Inr (map (\<lambda>m. Obj [(''role'', get_prop m ''role''), (''content'', get_prop m ''content'')])
            (filter well_formed (case v of Arr xs \<Rightarrow> xs | _ \<Rightarrow> [])))"
  unfolding clean_messages_def by (rule map_turns_well_formed)

lemma clean_messages_turns:
  assumes "clean_messages b v = Inr ts" and "t \<in> set ts"
  shows "\<exists>r c. t = Obj [(''role'', Str r), (''content'', Str c)]"
proof -
  from assms clean_messages_eq [of b v] obtain m where "well_formed m"
    and "t = Obj [(''role'', get_prop m ''role''), (''content'', get_prop m ''content'')]"
    by auto
  then show ?thesis by (auto simp: well_formed_def is_string_iff)
qed

lemma no_body_fixed [simp]: "\<not> no_body 200" "\<not> no_body 400" "\<not> no_body 500"
  by (simp_all add: no_body_def)

lemma send_json_fixed:
  "\<not> no_body s \<Longrightarrow> send_json s v = \<lparr>status = s, body = Some (json_of v)\<rparr>"
  by (simp add: send_json_def)

section \<open>The message sanitizer\<close>

lemma ToString_primitive:
  "ToString b Undefined = Inr ''undefined''" "ToString b Null = Inr ''null''"
  "\<exists>s. ToString b (Bool x) = Inr s" "\<exists>s. ToString b (Num n) = Inr s"
  "ToString b (Str s) = Inr s"
  by simp_all

lemma sanitize_cases:
  assumes "clean_messages b (destructure bd ''messages'' (Arr [])) = Inr clean"
  shows "sanitize b bd =
     (if truthy (destructure bd ''system'' (Str [])) \<and> \<not> list_ex (has_role ''system'') clean
      then (case ToString b (destructure bd ''system'' (Str [])) of
              Inl e \<Rightarrow> Inl e
            | Inr s \<Rightarrow> Inr (Obj [(''role'', Str ''system''), (''content'', Str s)] # clean))
      else Inr clean)"
  using assms by (simp add: sanitize_def Let_def)

lemma destructure_system:
  "get_prop bd ''system'' = Undefined \<Longrightarrow> destructure bd ''system'' (Str []) = Str []"
  "get_prop bd ''system'' = Str t \<Longrightarrow> destructure bd ''system'' (Str []) = Str t"
  by (simp_all add: destructure_def)

text \<open>
  Claim C2, amended. For every request body, with \<open>clean\<close> the supplied \<^verbatim>\<open>messages\<close>
  (the empty sequence when that value is not an array) without the elements that are
  not an object with a string \<^verbatim>\<open>role\<close> and a string \<^verbatim>\<open>content\<close>, the others kept in
  their order and rebuilt from these two fields: every element of \<open>clean\<close> has exactly
  the fields \<^verbatim>\<open>role\<close> and \<^verbatim>\<open>content\<close>, both strings; the sanitizer returns \<open>clean\<close>, or
  \<open>clean\<close> behind one system turn, or raises; it raises exactly when \<^verbatim>\<open>system\<close> is truthy,
  \<open>clean\<close> has no system turn and \<^verbatim>\<open>String(system)\<close> throws, whatever \<^verbatim>\<open>messages\<close> is;
  so it never raises when \<^verbatim>\<open>system\<close> is absent or a string.
\<close>

theorem sanitize_messages:
  "\<exists>clean.
      clean = map (\<lambda>m. Obj [(''role'', get_prop m ''role''), (''content'', get_prop m ''content'')])
                (filter (\<lambda>m. \<exists>kvs r c. m = Obj kvs \<and> map_of kvs ''role'' = Some (Str r)
                                        \<and> map_of kvs ''content'' = Some (Str c))
                   (case destructure bd ''messages'' (Arr []) of Arr xs \<Rightarrow> xs | _ \<Rightarrow> []))
    \<and> (\<forall>t \<in> set clean. \<exists>r c. t = Obj [(''role'', Str r), (''content'', Str c)])
    \<and> (sanitize b bd = Inr clean
        \<or> (\<exists>s. sanitize b bd
                  = Inr (Obj [(''role'', Str ''system''), (''content'', Str s)] # clean)
               \<and> ToString b (destructure bd ''system'' (Str [])) = Inr s)
        \<or> (\<exists>err. sanitize b bd = Inl err))
    \<and> ((\<exists>err. sanitize b bd = Inl err) \<longleftrightarrow>
          truthy (destructure bd ''system'' (Str []))
        \<and> \<not> list_ex (has_role ''system'') clean
        \<and> (\<exists>err. ToString b (destructure bd ''system'' (Str [])) = Inl err))
    \<and> (get_prop bd ''system'' = Undefined \<or> is_string (get_prop bd ''system'') \<longrightarrow>
          (\<exists>out. sanitize b bd = Inr out))"
proof -
  let ?sys = "destructure bd ''system'' (Str [])"
  let ?clean = "map (\<lambda>m. Obj [(''role'', get_prop m ''role''), (''content'', get_prop m ''content'')])
                (filter well_formed
                   (case destructure bd ''messages'' (Arr []) of Arr xs \<Rightarrow> xs | _ \<Rightarrow> []))"
  have c: "clean_messages b (destructure bd ''messages'' (Arr [])) = Inr ?clean"
    by (rule clean_messages_eq)
  have typed: "\<forall>t \<in> set ?clean. \<exists>r c. t = Obj [(''role'', Str r), (''content'', Str c)]"
    using clean_messages_turns [OF c] by blast
  note sc = sanitize_cases [OF c]
  have alt: "sanitize b bd = Inr ?clean
        \<or> (\<exists>s. sanitize b bd
                  = Inr (Obj [(''role'', Str ''system''), (''content'', Str s)] # ?clean)
               \<and> ToString b ?sys = Inr s)
        \<or> (\<exists>err. sanitize b bd = Inl err)"
    unfolding sc by (cases "ToString b ?sys") auto
  have raises: "(\<exists>err. sanitize b bd = Inl err) \<longleftrightarrow>
          truthy ?sys \<and> \<not> list_ex (has_role ''system'') ?clean
        \<and> (\<exists>err. ToString b ?sys = Inl err)"
    unfolding sc by (cases "ToString b ?sys") auto
  have plain: "get_prop bd ''system'' = Undefined \<or> is_string (get_prop bd ''system'') \<longrightarrow>
          (\<exists>out. sanitize b bd = Inr out)"
    unfolding sc by (auto simp: destructure_system is_string_iff)
  from typed alt raises plain show ?thesis
    unfolding well_formed_eq by blast
qed

theorem sanitize_messages_witness:
  "sanitize sample_builtins
     (Obj [(''messages'',
            Arr [Null,
                 Obj [(''role'', Str ''user''), (''content'', Str ''hi'')],
                 Str ''user'',
                 Obj [(''role'', Str ''user''), (''content'', Num (Fin 1))],
                 Obj [(''content'', Str ''yo''), (''role'', Str ''assistant''),
                      (''name'', Null)]])])
   = Inr [Obj [(''role'', Str ''user''), (''content'', Str ''hi'')],
          Obj [(''role'', Str ''assistant''), (''content'', Str ''yo'')]]
   \<and> sanitize sample_builtins (Obj [(''messages'', Str ''hello'')]) = Inr []"
proof -
  let ?bd = "Obj [(''messages'',
            Arr [Null,
                 Obj [(''role'', Str ''user''), (''content'', Str ''hi'')],
                 Str ''user'',
                 Obj [(''role'', Str ''user''), (''content'', Num (Fin 1))],
                 Obj [(''content'', Str ''yo''), (''role'', Str ''assistant''),
                      (''name'', Null)]])]"
  have u: "get_prop ?bd ''system'' = Undefined \<or> is_string (get_prop ?bd ''system'')"
    by simp
  from sanitize_messages [of ?bd sample_builtins] u
  obtain out where "sanitize sample_builtins ?bd = Inr out" by blast
  then have 1: "sanitize sample_builtins ?bd
      = Inr [Obj [(''role'', Str ''user''), (''content'', Str ''hi'')],
          Obj [(''role'', Str ''assistant''), (''content'', Str ''yo'')]]"
    by (simp add: sanitize_def destructure_def clean_messages_def well_formed_def)
  have 2: "sanitize sample_builtins (Obj [(''messages'', Str ''hello'')]) = Inr []"
    by (simp add: sanitize_def destructure_def clean_messages_def)
  from 1 2 show ?thesis by simp
qed

text \<open>
  The claim as written fails on \<^verbatim>\<open>messages: "hello"\<close> sent together with
  \<^verbatim>\<open>system: {"toString": 1}\<close>: the value is not an array, and the sanitizer raises.
\<close>

theorem sanitize_messages_counterexample:
  "sanitize sample_builtins
     (Obj [(''system'', Obj [(''toString'', Num (Fin 1))]), (''messages'', Str ''hello'')])
   = Inl TypeError"
  by (simp add: sanitize_def destructure_def clean_messages_def)

text \<open>
  Claim C3, amended. For every request body, with \<open>clean\<close> the cleaned messages: when a
  cleaned message has role \<^verbatim>\<open>"system"\<close>, or \<^verbatim>\<open>system\<close> is falsy (in particular absent or the
  empty string), the output is \<open>clean\<close> unchanged; when none has that role and \<^verbatim>\<open>system\<close> is
  truthy, the output is the turn \<^verbatim>\<open>{role: "system", content: String(system)}\<close> in front of
  \<open>clean\<close>, unless \<^verbatim>\<open>String(system)\<close> throws, and then the sanitizer throws the same error;
  so an output starts with a new system turn if and only if \<^verbatim>\<open>system\<close> is truthy and no
  cleaned message has that role; and for a string, \<^verbatim>\<open>String(system)\<close> is \<^verbatim>\<open>system\<close> itself
  and truthy means non-empty.
\<close>

theorem sanitize_system_turn:
  "\<exists>clean.
      clean_messages b (destructure bd ''messages'' (Arr [])) = Inr clean
    \<and> (list_ex (has_role ''system'') clean \<or> \<not> truthy (destructure bd ''system'' (Str []))
         \<longrightarrow> sanitize b bd = Inr clean)
    \<and> (truthy (destructure bd ''system'' (Str [])) \<and> \<not> list_ex (has_role ''system'') clean
         \<longrightarrow> (\<forall>s. ToString b (destructure bd ''system'' (Str [])) = Inr s \<longrightarrow>
                  sanitize b bd
                    = Inr (Obj [(''role'', Str ''system''), (''content'', Str s)] # clean))
           \<and> (\<forall>err. ToString b (destructure bd ''system'' (Str [])) = Inl err \<longrightarrow>
                  sanitize b bd = Inl err))
    \<and> (\<forall>out. sanitize b bd = Inr out \<longrightarrow>
          ((\<exists>s. out = Obj [(''role'', Str ''system''), (''content'', Str s)] # clean) \<longleftrightarrow>
             truthy (destructure bd ''system'' (Str []))
           \<and> \<not> list_ex (has_role ''system'') clean))
    \<and> (\<forall>t. get_prop bd ''system'' = Str t \<longrightarrow>
          ToString b (destructure bd ''system'' (Str [])) = Inr t
        \<and> (truthy (destructure bd ''system'' (Str [])) \<longleftrightarrow> t \<noteq> []))
    \<and> (get_prop bd ''system'' = Undefined \<longrightarrow> \<not> truthy (destructure bd ''system'' (Str [])))"
proof -
  let ?sys = "destructure bd ''system'' (Str [])"
  obtain clean where c: "clean_messages b (destructure bd ''messages'' (Arr [])) = Inr clean"
    using clean_messages_eq by blast
  note sc = sanitize_cases [OF c]
  have keep: "list_ex (has_role ''system'') clean \<or> \<not> truthy ?sys \<longrightarrow> sanitize b bd = Inr clean"
    unfolding sc by auto
  have add: "truthy ?sys \<and> \<not> list_ex (has_role ''system'') clean
         \<longrightarrow> (\<forall>s. ToString b ?sys = Inr s \<longrightarrow>
                  sanitize b bd
                    = Inr (Obj [(''role'', Str ''system''), (''content'', Str s)] # clean))
           \<and> (\<forall>err. ToString b ?sys = Inl err \<longrightarrow> sanitize b bd = Inl err)"
    unfolding sc by auto
  have iff: "\<forall>out. sanitize b bd = Inr out \<longrightarrow>
          ((\<exists>s. out = Obj [(''role'', Str ''system''), (''content'', Str s)] # clean) \<longleftrightarrow>
             truthy ?sys \<and> \<not> list_ex (has_role ''system'') clean)"
    unfolding sc by (cases "ToString b ?sys") auto
  have str: "\<forall>t. get_prop bd ''system'' = Str t \<longrightarrow>
          ToString b ?sys = Inr t \<and> (truthy ?sys \<longleftrightarrow> t \<noteq> [])"
    by (simp add: destructure_system)
  have undef: "get_prop bd ''system'' = Undefined \<longrightarrow> \<not> truthy ?sys"
    by (simp add: destructure_system)
  from c keep add iff str undef show ?thesis by blast
qed

text \<open>The two examples of the specification, and a system prompt that cannot be turned
  into a string beside an existing system turn.\<close>

theorem sanitize_system_turn_witness:
  "sanitize sample_builtins
     (Obj [(''system'', Str ''You are a coach''),
           (''messages'', Arr [Obj [(''role'', Str ''user''), (''content'', Str ''hi'')]])])
   = Inr [Obj [(''role'', Str ''system''), (''content'', Str ''You are a coach'')],
          Obj [(''role'', Str ''user''), (''content'', Str ''hi'')]]
   \<and> sanitize sample_builtins
     (Obj [(''system'', Str ''You are a coach''),
           (''messages'', Arr [Obj [(''role'', Str ''system''), (''content'', Str ''X'')]])])
   = Inr [Obj [(''role'', Str ''system''), (''content'', Str ''X'')]]
   \<and> sanitize sample_builtins
     (Obj [(''system'', Obj [(''toString'', Num (Fin 1))]),
           (''messages'', Arr [Obj [(''role'', Str ''system''), (''content'', Str ''X'')]])])
   = Inr [Obj [(''role'', Str ''system''), (''content'', Str ''X'')]]"
proof -
  let ?user = "Obj [(''role'', Str ''user''), (''content'', Str ''hi'')]"
  let ?sysx = "Obj [(''role'', Str ''system''), (''content'', Str ''X'')]"
  let ?b1 = "Obj [(''system'', Str ''You are a coach''), (''messages'', Arr [?user])]"
  let ?b2 = "Obj [(''system'', Str ''You are a coach''), (''messages'', Arr [?sysx])]"
  let ?b3 = "Obj [(''system'', Obj [(''toString'', Num (Fin 1))]), (''messages'', Arr [?sysx])]"
  have c1: "clean_messages sample_builtins (destructure ?b1 ''messages'' (Arr [])) = Inr [?user]"
    and c2: "clean_messages sample_builtins (destructure ?b2 ''messages'' (Arr [])) = Inr [?sysx]"
    and c3: "clean_messages sample_builtins (destructure ?b3 ''messages'' (Arr [])) = Inr [?sysx]"
    by (simp_all add: clean_messages_def destructure_def well_formed_def)
  have 1: "sanitize sample_builtins ?b1
     = Inr [Obj [(''role'', Str ''system''), (''content'', Str ''You are a coach'')], ?user]"
    using sanitize_system_turn [of sample_builtins ?b1] c1
    by (simp add: destructure_def has_role_def)
  have 2: "sanitize sample_builtins ?b2 = Inr [?sysx]"
    using sanitize_system_turn [of sample_builtins ?b2] c2
    by (simp add: destructure_def has_role_def)
  have 3: "sanitize sample_builtins ?b3 = Inr [?sysx]"
    using sanitize_system_turn [of sample_builtins ?b3] c3
    by (simp add: destructure_def has_role_def)
  from 1 2 3 show ?thesis by simp
qed

text \<open>
  The claim as written fails on a body whose \<^verbatim>\<open>system\<close> is \<^verbatim>\<open>{"toString": 1}\<close> and whose
  messages hold no system turn: \<^verbatim>\<open>system\<close> is truthy and \<^verbatim>\<open>String(system)\<close> throws, so there
  is no output at all. On \<^verbatim>\<open>system: 5\<close> the content of the new turn is the string \<^verbatim>\<open>"5"\<close>,
  not \<^verbatim>\<open>system\<close>.
\<close>

theorem sanitize_system_counterexample:
  "sanitize sample_builtins
     (Obj [(''system'', Obj [(''toString'', Num (Fin 1))]), (''messages'', Arr [])])
     = Inl TypeError
   \<and> sanitize sample_builtins (Obj [(''system'', Num (Fin 5)), (''messages'', Arr [])])
     = Inr [Obj [(''role'', Str ''system''), (''content'', Str ''5'')]]"
  by (simp add: sanitize_def destructure_def clean_messages_def well_formed_def has_role_def
        sample_builtins_def Number_toString_def)
section \<open>The temperature sent upstream\<close>

lemma array_index_temperature [simp]: "array_index ''temperature'' = None"
  by (simp add: array_index_def is_digit_def)

text \<open>The default \<^verbatim>\<open>temperature = 0.2\<close> and the fallback for NaN agree on an absent field,
  whose coercion is NaN.\<close>

lemma effective_temperature_eq:
  "effective_temperature b (destructure bd ''temperature'' (Num (Fin (2 / 10)))) =
     (case ToNumber b (get_prop bd ''temperature'') of
        Inl err \<Rightarrow> Inl err
      | Inr n \<Rightarrow> Inr (if n = NaN then Fin (2 / 10) else n))"
  by (cases "get_prop bd ''temperature'' = Undefined")
     (simp_all add: effective_temperature_def destructure_def Let_def)

lemma upstream_object_eq:
  "upstream_object b bd clean =
     (case ToNumber b (get_prop bd ''temperature'') of
        Inl err \<Rightarrow> Inl err
      | Inr n \<Rightarrow>
          Inr (Obj [(''model'', destructure bd ''model'' (Str ''gpt-4o-mini'')),
                    (''temperature'', Num (if n = NaN then Fin (2 / 10) else n)),
                    (''messages'', Arr clean)]))"
  unfolding upstream_object_def Let_def effective_temperature_eq
  by (simp split: sum.splits)

lemma destructure_defined: "d \<noteq> Undefined \<Longrightarrow> destructure bd k d \<noteq> Undefined"
  by (simp add: destructure_def Let_def)

lemma StringToNumber_abc: "StringToNumber b ''abc'' = NaN"
  by (simp add: StringToNumber_def trim_def is_ws_def parse_radix_def
        parse_unsigned_decimal_def is_digit_def)

lemma StringToNumber_Infinity: "StringToNumber b ''Infinity'' = PosInf"
  by (simp add: StringToNumber_def trim_def is_ws_def parse_radix_def)

text \<open>
  Claim C4, amended. For every request body: if \<^verbatim>\<open>Number(temperature)\<close> throws, no upstream
  body is built; otherwise, with \<open>n\<close> the numeric coercion of the supplied field
  (\<^verbatim>\<open>undefined\<close> when it is absent), the temperature of the object handed to
  \<^verbatim>\<open>JSON.stringify\<close> is \<open>n\<close>, or 0.2 when \<open>n\<close> is NaN, and is never NaN; and whenever that value
  is finite, it is the temperature field of the JSON body sent upstream.
\<close>

theorem upstream_temperature:
  "(\<forall>err. ToNumber b (get_prop bd ''temperature'') = Inl err \<longrightarrow>
          upstream_object b bd clean = Inl err)
   \<and> (\<forall>n. ToNumber b (get_prop bd ''temperature'') = Inr n \<longrightarrow>
        (\<exists>obj. upstream_object b bd clean = Inr obj
           \<and> get_prop obj ''temperature'' = Num (if n = NaN then Fin (2 / 10) else n)
           \<and> get_prop obj ''temperature'' \<noteq> Num NaN
           \<and> (\<forall>q. (if n = NaN then Fin (2 / 10) else n) = Fin q \<longrightarrow>
                  get_prop (json_body (upstream_request key base obj)) ''temperature''
                    = Num (Fin q))))"
proof (intro conjI allI impI)
  fix err assume "ToNumber b (get_prop bd ''temperature'') = Inl err"
  then show "upstream_object b bd clean = Inl err" by (simp add: upstream_object_eq)
next
  fix n assume n: "ToNumber b (get_prop bd ''temperature'') = Inr n"
  let ?t = "if n = NaN then Fin (2 / 10) else n"
  let ?obj = "Obj [(''model'', destructure bd ''model'' (Str ''gpt-4o-mini'')),
                   (''temperature'', Num ?t), (''messages'', Arr clean)]"
  have obj: "upstream_object b bd clean = Inr ?obj"
    using n by (simp add: upstream_object_eq)
  have t: "get_prop ?obj ''temperature'' = Num ?t" by simp
  have nn: "get_prop ?obj ''temperature'' \<noteq> Num NaN" by simp
  have m: "destructure bd ''model'' (Str ''gpt-4o-mini'') \<noteq> Undefined"
    by (rule destructure_defined) simp
  have sent: "get_prop (json_body (upstream_request key base ?obj)) ''temperature'' = Num (Fin q)"
    if "?t = Fin q" for q
    using that m by (simp add: upstream_request_def)
  from obj t nn sent
  show "\<exists>obj. upstream_object b bd clean = Inr obj
           \<and> get_prop obj ''temperature'' = Num ?t
           \<and> get_prop obj ''temperature'' \<noteq> Num NaN
           \<and> (\<forall>q. ?t = Fin q \<longrightarrow>
                  get_prop (json_body (upstream_request key base obj)) ''temperature''
                    = Num (Fin q))"
    by blast
qed

text \<open>The example of the specification: for \<^verbatim>\<open>temperature: "abc"\<close> the body sent carries 0.2.\<close>

theorem upstream_temperature_witness:
  "upstream_object sample_builtins (Obj [(''temperature'', Str ''abc'')]) []
     = Inr (Obj [(''model'', Str ''gpt-4o-mini''), (''temperature'', Num (Fin (2 / 10))),
                 (''messages'', Arr [])])
   \<and> json_body (upstream_request ''sk-test'' ''https://api.openai.com/v1''
        (Obj [(''model'', Str ''gpt-4o-mini''), (''temperature'', Num (Fin (2 / 10))),
              (''messages'', Arr [])]))
     = Obj [(''model'', Str ''gpt-4o-mini''), (''temperature'', Num (Fin (2 / 10))),
            (''messages'', Arr [])]"
  using upstream_temperature [of sample_builtins "Obj [(''temperature'', Str ''abc'')]" "[]"
          "''sk-test''" "''https://api.openai.com/v1''"]
  by (simp add: StringToNumber_abc upstream_object_eq destructure_def upstream_request_def)

text \<open>
  The claim as written fails on \<^verbatim>\<open>temperature: "Infinity"\<close>: the coercion is the number
  Infinity, which is not NaN and is kept, and \<^verbatim>\<open>JSON.stringify\<close> writes it as \<^verbatim>\<open>null\<close>, so
  the temperature field of the body sent is \<^verbatim>\<open>null\<close>, not the coerced number.
\<close>

theorem upstream_temperature_counterexample:
  "ToNumber sample_builtins (Str ''Infinity'') = Inr PosInf
   \<and> upstream_object sample_builtins (Obj [(''temperature'', Str ''Infinity'')]) []
     = Inr (Obj [(''model'', Str ''gpt-4o-mini''), (''temperature'', Num PosInf),
                 (''messages'', Arr [])])
   \<and> json_body (upstream_request ''sk-test'' ''https://api.openai.com/v1''
        (Obj [(''model'', Str ''gpt-4o-mini''), (''temperature'', Num PosInf),
              (''messages'', Arr [])]))
     = Obj [(''model'', Str ''gpt-4o-mini''), (''temperature'', Null), (''messages'', Arr [])]"
  by (simp add: StringToNumber_Infinity upstream_object_eq destructure_def upstream_request_def)

section \<open>The origin guard\<close>

text \<open>
  Claim C8, amended. The guard allows a request exactly when its \<^verbatim>\<open>Origin\<close> header is
  absent, is the empty string, or is equal to one of the four members of the allow-list;
  every other origin is refused with the error \<^verbatim>\<open>Not allowed by CORS\<close>, and then neither
  application runs a route handler: the outcome is the rejection and nothing is recorded.
\<close>

theorem origin_guard:
  "(cors_origin orig = Inr True \<longleftrightarrow>
      orig = None \<or> orig = Some [] \<or> (\<exists>a. orig = Some a \<and> a \<in> ALLOWED))
   \<and> (cors_origin orig \<noteq> Inr True \<longrightarrow> cors_origin orig = Inl NotAllowedByCORS)
   \<and> (cors_origin (origin req) \<noteq> Inr True \<longrightarrow>
        app b e fetch rnd ep req w = (Rejected NotAllowedByCORS, w)
        \<and> server_app b e fetch sep req w = (Rejected NotAllowedByCORS, w))"
  by (cases orig; cases "origin req")
     (auto simp: cors_origin_def header_def app_def server_app_def)

theorem origin_guard_witness:
  "cors_origin (Some ''https://evil.example'') = Inl NotAllowedByCORS
   \<and> app sample_builtins sample_env upstream_hi 0 POST_chat
       ((sample_request (Obj []))\<lparr>origin := Some ''https://evil.example''\<rparr>) empty_world
     = (Rejected NotAllowedByCORS, empty_world)
   \<and> cors_origin None = Inr True
   \<and> cors_origin (Some ''http://localhost:5173'') = Inr True
   \<and> cors_origin (Some ''http://localhost:5173/'') = Inl NotAllowedByCORS"
  using origin_guard [of "Some ''https://evil.example''"
     "(sample_request (Obj []))\<lparr>origin := Some ''https://evil.example''\<rparr>"
     sample_builtins sample_env upstream_hi 0 POST_chat empty_world Server_POST_chat]
  by (simp add: cors_origin_def header_def ALLOWED_def sample_request_def)

text \<open>The claim as written fails on a request whose \<^verbatim>\<open>Origin\<close> header is present and
  empty: \<^verbatim>\<open>!origin\<close> holds for the empty string, so the request is allowed although its
  origin is neither absent nor on the allow-list.\<close>

theorem origin_guard_counterexample:
  "cors_origin (Some []) = Inr True \<and> Some [] \<noteq> (None :: string option) \<and> [] \<notin> ALLOWED"
  by (simp add: cors_origin_def header_def ALLOWED_def)

section \<open>Paths through the chat handler\<close>

lemma recordEvent_no_pool:
  "pool e = None \<Longrightarrow>
   recordEvent e r w =
     Inr (w\<lparr>logged := logged w @
            [LoggerInfo ((''type'', Str ''analytics'') # row_props r) ''event'']\<rparr>)"
  by (simp add: recordEvent_def)

lemma recordEvent_Inr:
  assumes "recordEvent e r w = Inr w'"
  shows "(pool e = None \<longrightarrow>
            w' = w\<lparr>logged := logged w @
                   [LoggerInfo ((''type'', Str ''analytics'') # row_props r) ''event'']\<rparr>)
       \<and> (pool e \<noteq> None \<longrightarrow> w' = w\<lparr>events := events w @ [insert_params r]\<rparr>)"
  using assms by (auto simp: recordEvent_def split: option.splits if_splits)

lemma recordEvent_Inl:
  "recordEvent e r w = Inl err \<Longrightarrow>
   err = QueryFailed \<and> (\<exists>accepts. pool e = Some accepts \<and> \<not> accepts (insert_params r))"
  by (auto simp: recordEvent_def split: option.splits if_splits)

lemma reply_of_defined: "reply_of data \<noteq> Undefined"
  by (simp add: reply_of_def nullish_def)

lemma json_of_reply:
  "json_of (Obj [(''reply'', reply_of data)]) = Obj [(''reply'', json_of (reply_of data))]"
  by (simp add: reply_of_defined)

lemma api_chat_upstream_fails:
  assumes "env_or (OPENAI_API_KEY e) [] \<noteq> []"
    and "chat_upstream b e fetch (env_or (OPENAI_API_KEY e) []) (js_or (req_body req) (Obj []))
           = Inl err"
  shows "api_chat b e fetch req w =
     (\<lparr>status = 500, body = Some (Obj [(''error'', Str ''Proxy error'')])\<rparr>,
      w\<lparr>logged := logged w @ [LoggerError err ''Proxy error'']\<rparr>)"
  using assms by (simp add: api_chat_def chat_try_def Let_def send_json_fixed)

lemma api_chat_error_path:
  assumes "env_or (OPENAI_API_KEY e) [] \<noteq> []"
    and "chat_upstream b e fetch (env_or (OPENAI_API_KEY e) []) (js_or (req_body req) (Obj []))
           = Inr (clean, r)"
    and "\<not> ok r"
  shows "api_chat b e fetch req w =
     (case recordEvent e (chat_error_row req r) w of
        Inl err \<Rightarrow>
          (\<lparr>status = 500, body = Some (Obj [(''error'', Str ''Proxy error'')])\<rparr>,
           w\<lparr>logged := logged w @ [LoggerError err ''Proxy error'']\<rparr>)
      | Inr w' \<Rightarrow>
          if r_status r < 100 \<or> 999 < r_status r then
            (\<lparr>status = 500, body = Some (Obj [(''error'', Str ''Proxy error'')])\<rparr>,
             w'\<lparr>logged := logged w' @ [LoggerError RangeError ''Proxy error'']\<rparr>)
          else
            (\<lparr>status = r_status r,
              body = (if r_status r < 200 \<or> r_status r = 304 then None
                      else Some (Obj [(''error'', Str (r_text r))]))\<rparr>, w'))"
proof (cases "recordEvent e (chat_error_row req r) w")
  case (Inl err)
  with assms show ?thesis
    by (simp add: api_chat_def chat_try_def Let_def send_json_fixed)
next
  case (Inr w')
  from assms(3) have nb: "no_body (r_status r) \<longleftrightarrow> r_status r < 200 \<or> r_status r = 304"
    by (auto simp: ok_def no_body_def)
  from assms Inr show ?thesis
    by (simp add: api_chat_def chat_try_def Let_def res_json_def send_json_def nb)
qed

lemma api_chat_success_path:
  assumes "env_or (OPENAI_API_KEY e) [] \<noteq> []"
    and "chat_upstream b e fetch (env_or (OPENAI_API_KEY e) []) (js_or (req_body req) (Obj []))
           = Inr (clean, r)"
    and "ok r"
    and "JSON_parse b (r_text r) = Some data"
    and "chat_row b e req (js_or (req_body req) (Obj [])) clean (reply_of data) = Inr cr"
  shows "api_chat b e fetch req w =
     (case recordEvent e cr w of
        Inr w' \<Rightarrow>
          (\<lparr>status = 200, body = Some (Obj [(''reply'', json_of (reply_of data))])\<rparr>, w')
      | Inl err \<Rightarrow>
          (\<lparr>status = 500, body = Some (Obj [(''error'', Str ''Proxy error'')])\<rparr>,
           w\<lparr>logged := logged w @ [LoggerError err ''Proxy error'']\<rparr>))"
  using assms
  by (simp add: api_chat_def chat_try_def Let_def send_json_def res_json_def reply_of_defined
        split: sum.splits)

lemma chat_upstream_Inr:
  assumes "chat_upstream b e fetch key bd = Inr (clean, r)"
  shows "sanitize b bd = Inr clean
       \<and> (\<exists>obj. upstream_object b bd clean = Inr obj
             \<and> fetch (upstream_request key
                  (env_or (OPENAI_API_BASE e) ''https://api.openai.com/v1'') obj) = Inr r)"
  using assms by (auto simp: chat_upstream_def split: sum.splits)

lemma chat_row_Inr:
  assumes "upstream_object b bd clean = Inr obj"
  shows "\<exists>t. ToNumber b (destructure bd ''temperature'' (Num (Fin (2 / 10)))) = Inr t
     \<and> chat_row b e req bd clean reply =
       Inr \<lparr>session_id = js_or (header (x_session_id req)) Null,
            user_agent = js_or (header (user_agent_header req)) (Str []),
            ip = clientIp req,
            page = js_or (header (referer req)) Null,
            step = Null,
            section_id = Null,
            event_name = Str ''coach_chat'',
            payload = Obj [(''model'', destructure bd ''model'' (Str ''gpt-4o-mini'')),
                           (''temperature'', Num t),
                           (''prompt_len'', get_prop (lastUser_of clean) ''length''),
                           (''prompt_sample'',
                              if logChatContent e then slice0 500 (lastUser_of clean)
                              else Undefined),
                           (''reply_len'', get_prop reply ''length'')]\<rparr>"
  using assms
  unfolding upstream_object_def chat_row_def effective_temperature_def Let_def
  by (auto split: sum.splits)

lemma find_None_filter: "find P xs = None \<longleftrightarrow> filter P xs = []"
  by (induction xs) auto

lemma find_rev_last:
  "find P (rev xs) = (if filter P xs = [] then None else Some (last (filter P xs)))"
proof (induction xs rule: rev_induct)
  case Nil
  show ?case by simp
next
  case (snoc x xs)
  then show ?case by (auto simp: find_None_filter)
qed

lemma sanitize_turns:
  assumes "sanitize b bd = Inr out" and "t \<in> set out"
  shows "\<exists>r c. t = Obj [(''role'', Str r), (''content'', Str c)]"
proof -
  obtain clean where c: "clean_messages b (destructure bd ''messages'' (Arr [])) = Inr clean"
    using clean_messages_eq by blast
  from assms(1) have "out = clean \<or> (\<exists>s. out = Obj [(''role'', Str ''system''), (''content'', Str s)] # clean)"
    unfolding sanitize_cases [OF c] by (auto split: if_splits sum.splits)
  with assms(2) clean_messages_turns [OF c] show ?thesis by auto
qed

lemma lastUser_string:
  assumes "sanitize b bd = Inr clean"
  shows "\<exists>lu. lastUser_of clean = Str lu
     \<and> (filter (has_role ''user'') clean = [] \<longrightarrow> lu = [])
     \<and> (filter (has_role ''user'') clean \<noteq> [] \<longrightarrow>
          get_prop (last (filter (has_role ''user'') clean)) ''content'' = Str lu)"
proof (cases "filter (has_role ''user'') clean = []")
  case True
  then show ?thesis by (simp add: lastUser_of_def find_rev_last js_or_def)
next
  case False
  then have "last (filter (has_role ''user'') clean) \<in> set (filter (has_role ''user'') clean)"
    by (rule last_in_set)
  then have "last (filter (has_role ''user'') clean) \<in> set clean" by simp
  from sanitize_turns [OF assms this] obtain r c
    where "last (filter (has_role ''user'') clean) = Obj [(''role'', Str r), (''content'', Str c)]"
    by blast
  with False show ?thesis by (simp add: lastUser_of_def find_rev_last js_or_def)
qed

lemma array_index_misc [simp]:
  "array_index ''choices'' = None" "array_index ''message'' = None" "array_index ''0'' = Some 0"
  "array_index ''length'' = None"
  by (simp_all add: array_index_def is_digit_def nat_of_digits_def digit_of_def)

lemma reply_of_first_choice:
  "get_prop data ''choices'' = Arr (ch # chs) \<Longrightarrow>
   reply_of data = nullish (get_prop (get_prop ch ''message'') ''content'') (Str [])"
  by (simp add: reply_of_def)

lemma reply_of_absent:
  "get_prop (get_prop (get_prop (get_prop data ''choices'') ''0'') ''message'') ''content''
     \<in> {Undefined, Null} \<Longrightarrow> reply_of data = Str []"
  by (auto simp add: reply_of_def nullish_def)

section \<open>The upstream refuses\<close>

text \<open>
  Claim C5, amended. For every /api/chat request that reaches the upstream and gets a
  response whose status is outside 200..299: the handler calls \<^verbatim>\<open>recordEvent\<close> with the row
  named \<^verbatim>\<open>coach_chat_error\<close> whose payload is the status and the first 512 characters of
  the response text; provided that call does not raise, exactly one event has been added
  (one log line without a database, one inserted row with one) and the response carries
  the upstream status and \<^verbatim>\<open>{error: text}\<close> with the full text; except that with status 304,
  or an informational status, the response carries the status and no body, and that a
  status outside 100..999 cannot be sent and ends in 500 \<^verbatim>\<open>Proxy error\<close>.
\<close>

theorem chat_error_event:
  assumes "env_or (OPENAI_API_KEY e) [] \<noteq> []"
    and "chat_upstream b e fetch (env_or (OPENAI_API_KEY e) []) (js_or (req_body req) (Obj []))
           = Inr (clean, r)"
    and "\<not> ok r"
    and "recordEvent e (chat_error_row req r) w = Inr w'"
  shows "event_name (chat_error_row req r) = Str ''coach_chat_error''
       \<and> payload (chat_error_row req r) =
           Obj [(''status'', Num (Fin (of_nat (r_status r)))),
                (''body'', Str (take 512 (r_text r)))]
       \<and> (pool e = None \<longrightarrow>
            w' = w\<lparr>logged := logged w @
                   [LoggerInfo ((''type'', Str ''analytics'') # row_props (chat_error_row req r))
                      ''event'']\<rparr>)
       \<and> (pool e \<noteq> None \<longrightarrow>
            w' = w\<lparr>events := events w @ [insert_params (chat_error_row req r)]\<rparr>)
       \<and> (100 \<le> r_status r \<and> r_status r \<le> 999 \<longrightarrow>
            api_chat b e fetch req w =
              (\<lparr>status = r_status r,
                body = (if r_status r < 200 \<or> r_status r = 304 then None
                        else Some (Obj [(''error'', Str (r_text r))]))\<rparr>, w'))
       \<and> (r_status r < 100 \<or> 999 < r_status r \<longrightarrow>
            api_chat b e fetch req w =
              (\<lparr>status = 500, body = Some (Obj [(''error'', Str ''Proxy error'')])\<rparr>,
               w'\<lparr>logged := logged w' @ [LoggerError RangeError ''Proxy error'']\<rparr>))"
proof -
  have n: "event_name (chat_error_row req r) = Str ''coach_chat_error''"
    and p: "payload (chat_error_row req r) =
           Obj [(''status'', Num (Fin (of_nat (r_status r)))),
                (''body'', Str (take 512 (r_text r)))]"
    by (simp_all add: chat_error_row_def)
  have a: "100 \<le> r_status r \<and> r_status r \<le> 999 \<longrightarrow>
            api_chat b e fetch req w =
              (\<lparr>status = r_status r,
                body = (if r_status r < 200 \<or> r_status r = 304 then None
                        else Some (Obj [(''error'', Str (r_text r))]))\<rparr>, w')"
    using api_chat_error_path [OF assms(1-3), of w] assms(4) by auto
  have c: "r_status r < 100 \<or> 999 < r_status r \<longrightarrow>
            api_chat b e fetch req w =
              (\<lparr>status = 500, body = Some (Obj [(''error'', Str ''Proxy error'')])\<rparr>,
               w'\<lparr>logged := logged w' @ [LoggerError RangeError ''Proxy error'']\<rparr>)"
    using api_chat_error_path [OF assms(1-3), of w] assms(4) by auto
  from n p a c recordEvent_Inr [OF assms(4)] show ?thesis by blast
qed

theorem chat_error_event_witness:
  "api_chat sample_builtins sample_env upstream_429 (sample_request (Obj [])) empty_world
    = (\<lparr>status = 429, body = Some (Obj [(''error'', Str ''rate limited'')])\<rparr>,
       \<lparr>events = [],
        logged = [LoggerInfo
                   [(''type'', Str ''analytics''), (''session_id'', Null),
                    (''user_agent'', Str ''curl/8''), (''ip'', Str ''127.0.0.1''),
                    (''page'', Null), (''step'', Null), (''section_id'', Null),
                    (''event_name'', Str ''coach_chat_error''),
                    (''payload'', Obj [(''status'', Num (Fin 429)),
                                       (''body'', Str ''rate limited'')])]
                   ''event'']\<rparr>)"
proof -
  have k: "env_or (OPENAI_API_KEY sample_env) [] \<noteq> []"
    by (simp add: sample_env_def env_or_def)
  have u: "chat_upstream sample_builtins sample_env upstream_429
             (env_or (OPENAI_API_KEY sample_env) [])
             (js_or (req_body (sample_request (Obj []))) (Obj []))
           = Inr ([], \<lparr>r_status = 429, r_text = ''rate limited''\<rparr>)"
    by (simp add: chat_upstream_def sanitize_def clean_messages_def destructure_def
          upstream_object_eq upstream_429_def sample_request_def js_or_def)
  have n: "\<not> ok \<lparr>r_status = 429, r_text = ''rate limited''\<rparr>"
    by (simp add: ok_def)
  have r: "recordEvent sample_env
             (chat_error_row (sample_request (Obj [])) \<lparr>r_status = 429, r_text = ''rate limited''\<rparr>)
             empty_world
           = Inr \<lparr>events = [],
        logged = [LoggerInfo
                   [(''type'', Str ''analytics''), (''session_id'', Null),
                    (''user_agent'', Str ''curl/8''), (''ip'', Str ''127.0.0.1''),
                    (''page'', Null), (''step'', Null), (''section_id'', Null),
                    (''event_name'', Str ''coach_chat_error''),
                    (''payload'', Obj [(''status'', Num (Fin 429)),
                                       (''body'', Str ''rate limited'')])]
                   ''event'']\<rparr>"
    by (simp add: recordEvent_def sample_env_def chat_error_row_def row_props_def empty_world_def
          sample_request_def header_def js_or_def clientIp_def)
  from chat_error_event [OF k u n r] show ?thesis by simp
qed

text \<open>
  The claim as written fails when the INSERT rejects: for an upstream answer 429 the
  handler then responds 500 \<^verbatim>\<open>Proxy error\<close> and no event is stored. It also fails on an
  upstream answer 304, which is passed on without a body.
\<close>

theorem chat_error_event_counterexample:
  "api_chat sample_builtins rejecting_env upstream_429 (sample_request (Obj [])) empty_world
    = (\<lparr>status = 500, body = Some (Obj [(''error'', Str ''Proxy error'')])\<rparr>,
       \<lparr>events = [], logged = [LoggerError QueryFailed ''Proxy error'']\<rparr>)
   \<and> fst (api_chat sample_builtins sample_env upstream_304 (sample_request (Obj []))
            empty_world)
    = \<lparr>status = 304, body = None\<rparr>"
  by (simp add: api_chat_def chat_try_def chat_upstream_def sanitize_def clean_messages_def
        destructure_def upstream_object_eq upstream_429_def upstream_304_def sample_request_def
        js_or_def rejecting_env_def sample_env_def env_or_def ok_def recordEvent_def
        empty_world_def send_json_def res_json_def no_body_def)

section \<open>The upstream answers\<close>

text \<open>
  Claim C6, amended. For every /api/chat request that reaches the upstream and gets a
  response with a status in 200..299 whose text parses as JSON: \<^verbatim>\<open>reply\<close> is
  \<^verbatim>\<open>choices[0].message.content\<close> of the parsed body, the empty string when that is absent
  or null at any level; \<^verbatim>\<open>lastUser\<close> is a string, the content of the last sanitized turn
  with role \<^verbatim>\<open>"user"\<close>, empty if there is none; the handler calls \<^verbatim>\<open>recordEvent\<close> with the row
  named \<^verbatim>\<open>coach_chat\<close> whose \<^verbatim>\<open>prompt_len\<close> is the length of \<^verbatim>\<open>lastUser\<close>, whose \<^verbatim>\<open>reply_len\<close>
  is \<^verbatim>\<open>reply.length\<close> (the length of \<^verbatim>\<open>reply\<close> when it is a string) and whose
  \<^verbatim>\<open>prompt_sample\<close> is the first 500 characters of \<^verbatim>\<open>lastUser\<close> when the toggle is on and
  \<^verbatim>\<open>undefined\<close> otherwise; provided that call does not raise, exactly one event has been
  added and the response is 200 with the body \<^verbatim>\<open>{reply}\<close> as \<^verbatim>\<open>JSON.stringify\<close> writes it:
  \<^verbatim>\<open>reply\<close> itself when it is a string.
\<close>

theorem chat_success_event:
  assumes "env_or (OPENAI_API_KEY e) [] \<noteq> []"
    and "chat_upstream b e fetch (env_or (OPENAI_API_KEY e) []) (js_or (req_body req) (Obj []))
           = Inr (clean, r)"
    and "ok r"
    and "JSON_parse b (r_text r) = Some data"
  shows "\<exists>cr lu.
      chat_row b e req (js_or (req_body req) (Obj [])) clean (reply_of data) = Inr cr
    \<and> lastUser_of clean = Str lu
    \<and> (filter (has_role ''user'') clean = [] \<longrightarrow> lu = [])
    \<and> (filter (has_role ''user'') clean \<noteq> [] \<longrightarrow>
         get_prop (last (filter (has_role ''user'') clean)) ''content'' = Str lu)
    \<and> event_name cr = Str ''coach_chat''
    \<and> get_prop (payload cr) ''prompt_len'' = Num (Fin (of_nat (length lu)))
    \<and> get_prop (payload cr) ''prompt_sample''
         = (if logChatContent e then Str (take 500 lu) else Undefined)
    \<and> get_prop (payload cr) ''reply_len'' = get_prop (reply_of data) ''length''
    \<and> (\<forall>s. reply_of data = Str s \<longrightarrow>
           get_prop (payload cr) ''reply_len'' = Num (Fin (of_nat (length s))))
    \<and> (\<forall>ch chs. get_prop data ''choices'' = Arr (ch # chs) \<longrightarrow>
           reply_of data = nullish (get_prop (get_prop ch ''message'') ''content'') (Str []))
    \<and> (get_prop (get_prop (get_prop (get_prop data ''choices'') ''0'') ''message'') ''content''
          \<in> {Undefined, Null} \<longrightarrow> reply_of data = Str [])
    \<and> (\<forall>w'. recordEvent e cr w = Inr w' \<longrightarrow>
           api_chat b e fetch req w
             = (\<lparr>status = 200, body = Some (Obj [(''reply'', json_of (reply_of data))])\<rparr>, w')
         \<and> (\<forall>s. reply_of data = Str s \<longrightarrow>
               api_chat b e fetch req w
                 = (\<lparr>status = 200, body = Some (Obj [(''reply'', Str s)])\<rparr>, w'))
         \<and> (pool e = None \<longrightarrow>
              w' = w\<lparr>logged := logged w @
                     [LoggerInfo ((''type'', Str ''analytics'') # row_props cr) ''event'']\<rparr>)
         \<and> (pool e \<noteq> None \<longrightarrow> w' = w\<lparr>events := events w @ [insert_params cr]\<rparr>))"
proof -
  let ?bd = "js_or (req_body req) (Obj [])"
  from chat_upstream_Inr [OF assms(2)] obtain obj
    where san: "sanitize b ?bd = Inr clean" and obj: "upstream_object b ?bd clean = Inr obj"
    by blast
  from chat_row_Inr [OF obj, of e req "reply_of data"] obtain t
    where cr: "chat_row b e req ?bd clean (reply_of data) =
       Inr \<lparr>session_id = js_or (header (x_session_id req)) Null,
            user_agent = js_or (header (user_agent_header req)) (Str []),
            ip = clientIp req,
            page = js_or (header (referer req)) Null,
            step = Null,
            section_id = Null,
            event_name = Str ''coach_chat'',
            payload = Obj [(''model'', destructure ?bd ''model'' (Str ''gpt-4o-mini'')),
                           (''temperature'', Num t),
                           (''prompt_len'', get_prop (lastUser_of clean) ''length''),
                           (''prompt_sample'',
                              if logChatContent e then slice0 500 (lastUser_of clean)
                              else Undefined),
                           (''reply_len'', get_prop (reply_of data) ''length'')]\<rparr>"
      (is "_ = Inr ?cr")
    by blast
  from lastUser_string [OF san] obtain lu
    where lu: "lastUser_of clean = Str lu"
      and lu0: "filter (has_role ''user'') clean = [] \<longrightarrow> lu = []"
      and lu1: "filter (has_role ''user'') clean \<noteq> [] \<longrightarrow>
                  get_prop (last (filter (has_role ''user'') clean)) ''content'' = Str lu"
    by blast
  have p1: "event_name ?cr = Str ''coach_chat''" by simp
  have p2: "get_prop (payload ?cr) ''prompt_len'' = Num (Fin (of_nat (length lu)))"
    by (simp add: lu)
  have p3: "get_prop (payload ?cr) ''prompt_sample''
              = (if logChatContent e then Str (take 500 lu) else Undefined)"
    by (simp add: lu)
  have p4: "get_prop (payload ?cr) ''reply_len'' = get_prop (reply_of data) ''length''"
    by simp
  have p5: "\<forall>s. reply_of data = Str s \<longrightarrow>
              get_prop (payload ?cr) ''reply_len'' = Num (Fin (of_nat (length s)))"
    by simp
  have p6: "\<forall>ch chs. get_prop data ''choices'' = Arr (ch # chs) \<longrightarrow>
           reply_of data = nullish (get_prop (get_prop ch ''message'') ''content'') (Str [])"
    by (simp add: reply_of_first_choice)
  have p7: "get_prop (get_prop (get_prop (get_prop data ''choices'') ''0'') ''message'') ''content''
          \<in> {Undefined, Null} \<longrightarrow> reply_of data = Str []"
    using reply_of_absent by blast
  have p8: "\<forall>w'. recordEvent e ?cr w = Inr w' \<longrightarrow>
           api_chat b e fetch req w
             = (\<lparr>status = 200, body = Some (Obj [(''reply'', json_of (reply_of data))])\<rparr>, w')
         \<and> (\<forall>s. reply_of data = Str s \<longrightarrow>
               api_chat b e fetch req w
                 = (\<lparr>status = 200, body = Some (Obj [(''reply'', Str s)])\<rparr>, w'))
         \<and> (pool e = None \<longrightarrow>
              w' = w\<lparr>logged := logged w @
                     [LoggerInfo ((''type'', Str ''analytics'') # row_props ?cr) ''event'']\<rparr>)
         \<and> (pool e \<noteq> None \<longrightarrow> w' = w\<lparr>events := events w @ [insert_params ?cr]\<rparr>)"
  proof (intro allI impI)
    fix w' assume rec: "recordEvent e ?cr w = Inr w'"
    have r1: "api_chat b e fetch req w
             = (\<lparr>status = 200, body = Some (Obj [(''reply'', json_of (reply_of data))])\<rparr>, w')"
      using api_chat_success_path [OF assms cr, of w] rec by simp
    then have r2: "\<forall>s. reply_of data = Str s \<longrightarrow>
               api_chat b e fetch req w
                 = (\<lparr>status = 200, body = Some (Obj [(''reply'', Str s)])\<rparr>, w')"
      by simp
    from r1 r2 recordEvent_Inr [OF rec]
    show "api_chat b e fetch req w
             = (\<lparr>status = 200, body = Some (Obj [(''reply'', json_of (reply_of data))])\<rparr>, w')
         \<and> (\<forall>s. reply_of data = Str s \<longrightarrow>
               api_chat b e fetch req w
                 = (\<lparr>status = 200, body = Some (Obj [(''reply'', Str s)])\<rparr>, w'))
         \<and> (pool e = None \<longrightarrow>
              w' = w\<lparr>logged := logged w @
                     [LoggerInfo ((''type'', Str ''analytics'') # row_props ?cr) ''event'']\<rparr>)
         \<and> (pool e \<noteq> None \<longrightarrow> w' = w\<lparr>events := events w @ [insert_params ?cr]\<rparr>)"
      by blast
  qed
  show ?thesis
    apply (rule exI [of _ ?cr])
    apply (rule exI [of _ lu])
    using cr lu lu0 lu1 p1 p2 p3 p4 p5 p6 p7 p8 by (intro conjI)
qed

text \<open>The example of the specification: the reply \<^verbatim>\<open>Hi there\<close>, of length 8.\<close>

theorem chat_success_event_witness:
  "api_chat sample_builtins sample_env upstream_hi
     (sample_request
        (Obj [(''messages'', Arr [Obj [(''role'', Str ''user''), (''content'', Str ''hello'')],
                                  Obj [(''role'', Str ''assistant''), (''content'', Str ''yes?'')]])]))
     empty_world
    = (\<lparr>status = 200, body = Some (Obj [(''reply'', Str ''Hi there'')])\<rparr>,
       \<lparr>events = [],
        logged = [LoggerInfo
                   [(''type'', Str ''analytics''), (''session_id'', Null),
                    (''user_agent'', Str ''curl/8''), (''ip'', Str ''127.0.0.1''),
                    (''page'', Null), (''step'', Null), (''section_id'', Null),
                    (''event_name'', Str ''coach_chat''),
                    (''payload'', Obj [(''model'', Str ''gpt-4o-mini''),
                                       (''temperature'', Num (Fin (2 / 10))),
                                       (''prompt_len'', Num (Fin 5)),
                                       (''prompt_sample'', Undefined),
                                       (''reply_len'', Num (Fin 8))])]
                   ''event'']\<rparr>)"
proof -
  let ?msgs = "[Obj [(''role'', Str ''user''), (''content'', Str ''hello'')],
                Obj [(''role'', Str ''assistant''), (''content'', Str ''yes?'')]]"
  let ?req = "sample_request (Obj [(''messages'', Arr ?msgs)])"
  let ?r = "\<lparr>r_status = 200,
             r_text = ''{\"choices\":[{\"message\":{\"content\":\"Hi there\"}}]}''\<rparr>"
  let ?data = "Obj [(''choices'', Arr [Obj [(''message'', Obj [(''content'', Str ''Hi there'')])]])]"
  have k: "env_or (OPENAI_API_KEY sample_env) [] \<noteq> []"
    by (simp add: sample_env_def env_or_def)
  have u: "chat_upstream sample_builtins sample_env upstream_hi
             (env_or (OPENAI_API_KEY sample_env) []) (js_or (req_body ?req) (Obj []))
           = Inr (?msgs, ?r)"
    by (simp add: chat_upstream_def sanitize_def clean_messages_def well_formed_def
          destructure_def has_role_def upstream_object_eq upstream_hi_def sample_request_def
          js_or_def)
  have o: "ok ?r" by (simp add: ok_def)
  have p: "JSON_parse sample_builtins (r_text ?r) = Some ?data"
    by (simp add: sample_builtins_def)
  from chat_success_event [OF k u o p, of empty_world] show ?thesis
    by (simp add: chat_row_def destructure_def sample_request_def js_or_def lastUser_of_def
          has_role_def reply_of_def nullish_def logChatContent_def sample_env_def env_or_def
          recordEvent_def row_props_def empty_world_def header_def clientIp_def Let_def)
qed

text \<open>
  The claim as written fails when the text of a successful response is not JSON, and when
  the INSERT rejects: in both runs the handler responds 500 \<^verbatim>\<open>Proxy error\<close> and no event
  is stored. It also fails when the content is the number \<^verbatim>\<open>1e999\<close>: \<^verbatim>\<open>reply\<close> is Infinity
  and the caller receives \<^verbatim>\<open>{"reply": null}\<close>.
\<close>

theorem chat_success_event_counterexample:
  "api_chat sample_builtins sample_env upstream_oops (sample_request (Obj [])) empty_world
    = (\<lparr>status = 500, body = Some (Obj [(''error'', Str ''Proxy error'')])\<rparr>,
       \<lparr>events = [], logged = [LoggerError SyntaxError ''Proxy error'']\<rparr>)
   \<and> api_chat sample_builtins rejecting_env upstream_hi (sample_request (Obj [])) empty_world
    = (\<lparr>status = 500, body = Some (Obj [(''error'', Str ''Proxy error'')])\<rparr>,
       \<lparr>events = [], logged = [LoggerError QueryFailed ''Proxy error'']\<rparr>)
   \<and> fst (api_chat sample_builtins sample_env upstream_big (sample_request (Obj []))
            empty_world)
    = \<lparr>status = 200, body = Some (Obj [(''reply'', Null)])\<rparr>"
  by (simp add: api_chat_def chat_try_def chat_upstream_def sanitize_def clean_messages_def
        destructure_def upstream_object_eq upstream_oops_def upstream_hi_def upstream_big_def
        sample_request_def js_or_def rejecting_env_def sample_env_def env_or_def ok_def
        recordEvent_def empty_world_def sample_builtins_def chat_row_def Let_def
        send_json_def res_json_def no_body_def reply_of_def nullish_def)

section \<open>The temperature recorded\<close>

lemma chat_upstream_fetch:
  assumes "sanitize b bd = Inr clean" and "upstream_object b bd clean = Inr obj"
  shows "chat_upstream b e F key bd =
     map_sum id (Pair clean)
       (F (upstream_request key (env_or (OPENAI_API_BASE e) ''https://api.openai.com/v1'') obj))"
  using assms by (simp add: chat_upstream_def split: sum.splits)

lemma json_temperature:
  assumes "upstream_object b bd clean = Inr obj"
    and "ToNumber b (destructure bd ''temperature'' (Num (Fin (2 / 10)))) = Inr t"
  shows "get_prop (json_body (upstream_request key base obj)) ''temperature''
          = json_of (Num (if t = NaN then Fin (2 / 10) else t))"
proof -
  have m: "destructure bd ''model'' (Str ''gpt-4o-mini'') \<noteq> Undefined"
    by (rule destructure_defined) simp
  from assms have "obj = Obj [(''model'', destructure bd ''model'' (Str ''gpt-4o-mini'')),
                   (''temperature'', Num (if t = NaN then Fin (2 / 10) else t)),
                   (''messages'', Arr clean)]"
    unfolding upstream_object_def effective_temperature_def Let_def by auto
  with m show ?thesis
    by (cases t) (simp_all add: upstream_request_def)
qed

text \<open>
  Claim C9. For every /api/chat request on the success path (a key is set, the upstream
  answers the request with a status in 200..299 and a text that parses as JSON), with \<open>t\<close>
  the value of \<^verbatim>\<open>Number(temperature)\<close>: the handler calls \<^verbatim>\<open>fetch\<close> with exactly one request,
  whose body carries the temperature \<open>t\<close>, or 0.2 when \<open>t\<close> is NaN; it hands to
  \<^verbatim>\<open>recordEvent\<close> the row named \<^verbatim>\<open>coach_chat\<close> whose payload carries \<open>t\<close> itself, without the
  fallback, and that payload is what the INSERT or the log line receives. So whenever a
  temperature is supplied and its numeric coercion is NaN, the request sent upstream
  carries 0.2 and the payload recorded carries NaN. How the database driver or the logger
  writes the payload afterwards is outside this model.
\<close>

theorem analytics_temperature_raw:
  assumes "env_or (OPENAI_API_KEY e) [] \<noteq> []"
    and "chat_upstream b e fetch (env_or (OPENAI_API_KEY e) []) (js_or (req_body req) (Obj []))
           = Inr (clean, r)"
    and "ok r"
    and "JSON_parse b (r_text r) = Some data"
  shows "\<exists>t obj cr.
      ToNumber b (destructure (js_or (req_body req) (Obj [])) ''temperature''
                    (Num (Fin (2 / 10)))) = Inr t
    \<and> upstream_object b (js_or (req_body req) (Obj [])) clean = Inr obj
    \<and> (\<forall>F. chat_upstream b e F (env_or (OPENAI_API_KEY e) []) (js_or (req_body req) (Obj []))
             = map_sum id (Pair clean)
                 (F (upstream_request (env_or (OPENAI_API_KEY e) [])
                       (env_or (OPENAI_API_BASE e) ''https://api.openai.com/v1'') obj)))
    \<and> get_prop (json_body (upstream_request (env_or (OPENAI_API_KEY e) [])
                   (env_or (OPENAI_API_BASE e) ''https://api.openai.com/v1'') obj))
          ''temperature''
        = json_of (Num (if t = NaN then Fin (2 / 10) else t))
    \<and> chat_row b e req (js_or (req_body req) (Obj [])) clean (reply_of data) = Inr cr
    \<and> event_name cr = Str ''coach_chat''
    \<and> get_prop (payload cr) ''temperature'' = Num t
    \<and> insert_params cr ! 7 = payload cr
    \<and> (\<forall>w'. recordEvent e cr w = Inr w' \<longrightarrow>
           api_chat b e fetch req w
             = (\<lparr>status = 200, body = Some (Obj [(''reply'', json_of (reply_of data))])\<rparr>, w')
         \<and> (pool e = None \<longrightarrow>
              w' = w\<lparr>logged := logged w @
                     [LoggerInfo ((''type'', Str ''analytics'') # row_props cr) ''event'']\<rparr>)
         \<and> (pool e \<noteq> None \<longrightarrow> w' = w\<lparr>events := events w @ [insert_params cr]\<rparr>))
    \<and> (get_prop (js_or (req_body req) (Obj [])) ''temperature'' \<noteq> Undefined
        \<and> ToNumber b (get_prop (js_or (req_body req) (Obj [])) ''temperature'') = Inr NaN
        \<longrightarrow> get_prop (payload cr) ''temperature'' = Num NaN
          \<and> get_prop (json_body (upstream_request (env_or (OPENAI_API_KEY e) [])
                         (env_or (OPENAI_API_BASE e) ''https://api.openai.com/v1'') obj))
               ''temperature''
             = Num (Fin (2 / 10)))"
proof -
  let ?bd = "js_or (req_body req) (Obj [])"
  let ?key = "env_or (OPENAI_API_KEY e) []"
  let ?base = "env_or (OPENAI_API_BASE e) ''https://api.openai.com/v1''"
  from chat_upstream_Inr [OF assms(2)] obtain obj
    where san: "sanitize b ?bd = Inr clean" and obj: "upstream_object b ?bd clean = Inr obj"
    by blast
  from chat_row_Inr [OF obj, of e req "reply_of data"] obtain t
    where t: "ToNumber b (destructure ?bd ''temperature'' (Num (Fin (2 / 10)))) = Inr t"
      and cr: "chat_row b e req ?bd clean (reply_of data) =
       Inr \<lparr>session_id = js_or (header (x_session_id req)) Null,
            user_agent = js_or (header (user_agent_header req)) (Str []),
            ip = clientIp req,
            page = js_or (header (referer req)) Null,
            step = Null,
            section_id = Null,
            event_name = Str ''coach_chat'',
            payload = Obj [(''model'', destructure ?bd ''model'' (Str ''gpt-4o-mini'')),
                           (''temperature'', Num t),
                           (''prompt_len'', get_prop (lastUser_of clean) ''length''),
                           (''prompt_sample'',
                              if logChatContent e then slice0 500 (lastUser_of clean)
                              else Undefined),
                           (''reply_len'', get_prop (reply_of data) ''length'')]\<rparr>"
      (is "_ = Inr ?cr")
    by blast
  have f: "\<forall>F. chat_upstream b e F ?key ?bd
             = map_sum id (Pair clean) (F (upstream_request ?key ?base obj))"
    using chat_upstream_fetch [OF san obj] by blast
  have j: "get_prop (json_body (upstream_request ?key ?base obj)) ''temperature''
        = json_of (Num (if t = NaN then Fin (2 / 10) else t))"
    by (rule json_temperature [OF obj t])
  have p1: "event_name ?cr = Str ''coach_chat''" by simp
  have p2: "get_prop (payload ?cr) ''temperature'' = Num t" by simp
  have p3: "insert_params ?cr ! 7 = payload ?cr" by (simp add: insert_params_def js_or_def)
  have p4: "\<forall>w'. recordEvent e ?cr w = Inr w' \<longrightarrow>
           api_chat b e fetch req w
             = (\<lparr>status = 200, body = Some (Obj [(''reply'', json_of (reply_of data))])\<rparr>, w')
         \<and> (pool e = None \<longrightarrow>
              w' = w\<lparr>logged := logged w @
                     [LoggerInfo ((''type'', Str ''analytics'') # row_props ?cr) ''event'']\<rparr>)
         \<and> (pool e \<noteq> None \<longrightarrow> w' = w\<lparr>events := events w @ [insert_params ?cr]\<rparr>)"
  proof (intro allI impI)
    fix w' assume rec: "recordEvent e ?cr w = Inr w'"
    have "api_chat b e fetch req w
             = (\<lparr>status = 200, body = Some (Obj [(''reply'', json_of (reply_of data))])\<rparr>, w')"
      using api_chat_success_path [OF assms cr, of w] rec by simp
    with recordEvent_Inr [OF rec]
    show "api_chat b e fetch req w
             = (\<lparr>status = 200, body = Some (Obj [(''reply'', json_of (reply_of data))])\<rparr>, w')
         \<and> (pool e = None \<longrightarrow>
              w' = w\<lparr>logged := logged w @
                     [LoggerInfo ((''type'', Str ''analytics'') # row_props ?cr) ''event'']\<rparr>)
         \<and> (pool e \<noteq> None \<longrightarrow> w' = w\<lparr>events := events w @ [insert_params ?cr]\<rparr>)"
      by blast
  qed
  have p5: "get_prop ?bd ''temperature'' \<noteq> Undefined
        \<and> ToNumber b (get_prop ?bd ''temperature'') = Inr NaN
        \<longrightarrow> get_prop (payload ?cr) ''temperature'' = Num NaN
          \<and> get_prop (json_body (upstream_request ?key ?base obj)) ''temperature''
             = Num (Fin (2 / 10))"
  proof
    assume a: "get_prop ?bd ''temperature'' \<noteq> Undefined
        \<and> ToNumber b (get_prop ?bd ''temperature'') = Inr NaN"
    then have "destructure ?bd ''temperature'' (Num (Fin (2 / 10))) = get_prop ?bd ''temperature''"
      by (simp add: destructure_def)
    with a t have "t = NaN" by simp
    with j show "get_prop (payload ?cr) ''temperature'' = Num NaN
          \<and> get_prop (json_body (upstream_request ?key ?base obj)) ''temperature''
             = Num (Fin (2 / 10))"
      by simp
  qed
  show ?thesis
    apply (rule exI [of _ t])
    apply (rule exI [of _ obj])
    apply (rule exI [of _ ?cr])
    using t obj f j cr p1 p2 p3 p4 p5 by (intro conjI)
qed

text \<open>A request with \<^verbatim>\<open>temperature: "abc"\<close>, against an upstream that answers only the
  requests carrying the temperature 0.2.\<close>

theorem analytics_temperature_raw_witness:
  "api_chat sample_builtins sample_env (only_temperature (Num (Fin (2 / 10))) upstream_hi)
     (sample_request (Obj [(''temperature'', Str ''abc'')])) empty_world
    = (\<lparr>status = 200, body = Some (Obj [(''reply'', Str ''Hi there'')])\<rparr>,
       \<lparr>events = [],
        logged = [LoggerInfo
                   [(''type'', Str ''analytics''), (''session_id'', Null),
                    (''user_agent'', Str ''curl/8''), (''ip'', Str ''127.0.0.1''),
                    (''page'', Null), (''step'', Null), (''section_id'', Null),
                    (''event_name'', Str ''coach_chat''),
                    (''payload'', Obj [(''model'', Str ''gpt-4o-mini''),
                                       (''temperature'', Num NaN),
                                       (''prompt_len'', Num (Fin 0)),
                                       (''prompt_sample'', Undefined),
                                       (''reply_len'', Num (Fin 8))])]
                   ''event'']\<rparr>)"
proof -
  let ?bd = "Obj [(''temperature'', Str ''abc'')]"
  let ?req = "sample_request ?bd"
  let ?F = "only_temperature (Num (Fin (2 / 10))) upstream_hi"
  let ?r = "\<lparr>r_status = 200,
             r_text = ''{\"choices\":[{\"message\":{\"content\":\"Hi there\"}}]}''\<rparr>"
  let ?data = "Obj [(''choices'', Arr [Obj [(''message'', Obj [(''content'', Str ''Hi there'')])]])]"
  have k: "env_or (OPENAI_API_KEY sample_env) [] \<noteq> []"
    by (simp add: sample_env_def env_or_def)
  have u: "chat_upstream sample_builtins sample_env ?F
             (env_or (OPENAI_API_KEY sample_env) []) (js_or (req_body ?req) (Obj []))
           = Inr ([], ?r)"
    by (simp add: chat_upstream_def sanitize_def clean_messages_def
          destructure_def upstream_object_eq upstream_hi_def only_temperature_def
          upstream_request_def sample_request_def js_or_def StringToNumber_abc)
  have o: "ok ?r" by (simp add: ok_def)
  have p: "JSON_parse sample_builtins (r_text ?r) = Some ?data"
    by (simp add: sample_builtins_def)
  from analytics_temperature_raw [OF k u o p, of empty_world] obtain cr
    where cr: "chat_row sample_builtins sample_env ?req (js_or (req_body ?req) (Obj [])) []
                 (reply_of ?data) = Inr cr"
      and rec: "\<forall>w'. recordEvent sample_env cr empty_world = Inr w' \<longrightarrow>
           api_chat sample_builtins sample_env ?F ?req empty_world
             = (\<lparr>status = 200, body = Some (Obj [(''reply'', json_of (reply_of ?data))])\<rparr>, w')"
    by auto
  have r: "reply_of ?data = Str ''Hi there''"
    by (simp add: reply_of_def nullish_def)
  from cr have v: "cr =
      \<lparr>session_id = Null, user_agent = Str ''curl/8'', ip = Str ''127.0.0.1'', page = Null,
       step = Null, section_id = Null, event_name = Str ''coach_chat'',
       payload = Obj [(''model'', Str ''gpt-4o-mini''), (''temperature'', Num NaN),
                      (''prompt_len'', Num (Fin 0)), (''prompt_sample'', Undefined),
                      (''reply_len'', Num (Fin 8))]\<rparr>"
    by (simp add: r chat_row_def destructure_def sample_request_def js_or_def lastUser_of_def
          logChatContent_def sample_env_def env_or_def header_def clientIp_def Let_def
          StringToNumber_abc)
  have "recordEvent sample_env cr empty_world =
     Inr \<lparr>events = [],
        logged = [LoggerInfo
                   [(''type'', Str ''analytics''), (''session_id'', Null),
                    (''user_agent'', Str ''curl/8''), (''ip'', Str ''127.0.0.1''),
                    (''page'', Null), (''step'', Null), (''section_id'', Null),
                    (''event_name'', Str ''coach_chat''),
                    (''payload'', Obj [(''model'', Str ''gpt-4o-mini''),
                                       (''temperature'', Num NaN),
                                       (''prompt_len'', Num (Fin 0)),
                                       (''prompt_sample'', Undefined),
                                       (''reply_len'', Num (Fin 8))])]
                   ''event'']\<rparr>"
    by (simp add: v recordEvent_def sample_env_def row_props_def empty_world_def)
  with rec r show ?thesis by simp
qed

section \<open>The two chat handlers compared\<close>


lemma server_map_turns_eq: "server_map_turns b ms = map_turns b ms"
  by (induction ms) (simp_all split: sum.splits)

lemma server_well_formed_eq: "server_well_formed = well_formed"
  by (rule ext) (simp add: server_well_formed_def well_formed_def)

lemma isArray_elements:
  "(case (if isArray v then v else Arr []) of Arr xs \<Rightarrow> xs | _ \<Rightarrow> [])
     = (case v of Arr xs \<Rightarrow> xs | _ \<Rightarrow> [])"
  by (cases v) simp_all

lemma server_sanitize_eq: "server_sanitize b bd = sanitize b bd"
proof -
  have ex: "list_ex (\<lambda>m. get_prop m ''role'' = Str ''system'') clean
              = list_ex (has_role ''system'') clean" for clean
    by (simp add: has_role_def list_ex_iff)
  show ?thesis
    unfolding server_sanitize_def sanitize_def clean_messages_def Let_def
      server_map_turns_eq server_well_formed_eq isArray_elements ex
    by (rule refl)
qed

lemma server_request_eq:
  "server_request b key base bd clean =
     map_sum id (upstream_request key base) (upstream_object b bd clean)"
proof (cases "get_prop bd ''temperature'' = Undefined")
  case True
  then show ?thesis
    unfolding server_request_def upstream_object_def effective_temperature_def Let_def
      upstream_request_def destructure_def
    by simp
next
  case False
  then show ?thesis
    unfolding server_request_def upstream_object_def effective_temperature_def Let_def
      upstream_request_def destructure_def
    by (simp split: sum.splits)
qed

lemma server_api_chat_eq:
  "server_api_chat b e fetch req w =
     (if env_or (OPENAI_API_KEY e) [] = [] then
        (\<lparr>status = 500, body = Some (Obj [(''error'', Str ''Missing OPENAI_API_KEY'')])\<rparr>, w)
      else
        (case chat_upstream b e fetch (env_or (OPENAI_API_KEY e) [])
                (js_or (req_body req) (Obj [])) of
           Inl err \<Rightarrow>
             (\<lparr>status = 500, body = Some (Obj [(''error'', Str ''Proxy error'')])\<rparr>,
              w\<lparr>logged := logged w @ [ConsoleError ''Proxy error:'' err]\<rparr>)
         | Inr (clean, r) \<Rightarrow>
             if \<not> ok r then
               (if r_status r < 100 \<or> 999 < r_status r then
                  (\<lparr>status = 500, body = Some (Obj [(''error'', Str ''Proxy error'')])\<rparr>,
                   w\<lparr>logged := logged w @ [ConsoleError ''Proxy error:'' RangeError]\<rparr>)
                else
                  (\<lparr>status = r_status r,
                    body = (if r_status r < 200 \<or> r_status r = 304 then None
                            else Some (Obj [(''error'', Str (r_text r))]))\<rparr>, w))
             else
               (case JSON_parse b (r_text r) of
                  None \<Rightarrow>
                    (\<lparr>status = 500, body = Some (Obj [(''error'', Str ''Proxy error'')])\<rparr>,
                     w\<lparr>logged := logged w @ [ConsoleError ''Proxy error:'' SyntaxError]\<rparr>)
                | Some data \<Rightarrow>
                    (\<lparr>status = 200, body = Some (Obj [(''reply'', json_of (reply_of data))])\<rparr>,
                     w))))"
proof -
  have rd: "nullish (get_prop (get_prop (get_prop (get_prop data ''choices'') ''0'')
               ''message'') ''content'') (Str []) \<noteq> Undefined" for data
    by (simp add: nullish_def)
  show ?thesis
    unfolding server_api_chat_def chat_upstream_def Let_def server_sanitize_eq
      server_request_eq reply_of_def res_json_def send_json_def
    by (auto simp: rd no_body_def ok_def split: sum.splits option.splits)
qed

text \<open>
  Claim C10, amended. For every request body the handler of src/server.js and the one of
  part_000 compute the same sanitized sequence (or throw the same error) and build the
  same upstream request, so they receive the same upstream response; and they return the
  same status and body whenever the call of \<^verbatim>\<open>recordEvent\<close> that part_000 makes in this run
  (with the error row when the upstream refuses, with the chat row when it answers) does
  not raise, as is the case without a database.
\<close>

theorem chat_implementations_agree:
  "server_sanitize b bd = sanitize b bd
   \<and> server_request b key base bd clean
       = map_sum id (upstream_request key base) (upstream_object b bd clean)
   \<and> ((\<forall>cl r. chat_upstream b e fetch (env_or (OPENAI_API_KEY e) [])
                     (js_or (req_body req) (Obj [])) = Inr (cl, r)
                 \<and> \<not> ok r
               \<longrightarrow> (\<exists>w'. recordEvent e (chat_error_row req r) w = Inr w'))
       \<and> (\<forall>cl r data cr.
                 chat_upstream b e fetch (env_or (OPENAI_API_KEY e) [])
                     (js_or (req_body req) (Obj [])) = Inr (cl, r)
                 \<and> ok r
                 \<and> JSON_parse b (r_text r) = Some data
                 \<and> chat_row b e req (js_or (req_body req) (Obj [])) cl (reply_of data) = Inr cr
               \<longrightarrow> (\<exists>w'. recordEvent e cr w = Inr w'))
       \<longrightarrow> fst (server_api_chat b e fetch req w0) = fst (api_chat b e fetch req w))"
proof (intro conjI impI)
  show "server_sanitize b bd = sanitize b bd" by (rule server_sanitize_eq)
  show "server_request b key base bd clean
       = map_sum id (upstream_request key base) (upstream_object b bd clean)"
    by (rule server_request_eq)
next
  let ?key = "env_or (OPENAI_API_KEY e) []"
  let ?bd = "js_or (req_body req) (Obj [])"
  assume rec: "(\<forall>cl r. chat_upstream b e fetch ?key ?bd = Inr (cl, r) \<and> \<not> ok r
               \<longrightarrow> (\<exists>w'. recordEvent e (chat_error_row req r) w = Inr w'))
       \<and> (\<forall>cl r data cr.
                 chat_upstream b e fetch ?key ?bd = Inr (cl, r)
                 \<and> ok r
                 \<and> JSON_parse b (r_text r) = Some data
                 \<and> chat_row b e req ?bd cl (reply_of data) = Inr cr
               \<longrightarrow> (\<exists>w'. recordEvent e cr w = Inr w'))"
  show "fst (server_api_chat b e fetch req w0) = fst (api_chat b e fetch req w)"
  proof (cases "?key = []")
    case True
    then show ?thesis by (simp add: server_api_chat_eq api_chat_def send_json_fixed)
  next
    case key: False
    show ?thesis
    proof (cases "chat_upstream b e fetch ?key ?bd")
      case (Inl err)
      with key show ?thesis
        by (simp add: server_api_chat_eq api_chat_upstream_fails)
    next
      case (Inr p)
      obtain cl r where p: "p = (cl, r)" by (cases p)
      from Inr p have up: "chat_upstream b e fetch ?key ?bd = Inr (cl, r)" by simp
      show ?thesis
      proof (cases "ok r")
        case False
        with rec up obtain w' where "recordEvent e (chat_error_row req r) w = Inr w'" by blast
        with key up False show ?thesis
          by (simp add: server_api_chat_eq api_chat_error_path)
      next
        case True
        show ?thesis
        proof (cases "JSON_parse b (r_text r)")
          case None
          with key up True show ?thesis
            by (simp add: server_api_chat_eq api_chat_def chat_try_def send_json_fixed)
        next
          case (Some data)
          from chat_upstream_Inr [OF up] obtain obj
            where "upstream_object b ?bd cl = Inr obj" by blast
          from chat_row_Inr [OF this, of e req "reply_of data"] obtain cr
            where cr: "chat_row b e req ?bd cl (reply_of data) = Inr cr" by blast
          with rec up True Some obtain w' where "recordEvent e cr w = Inr w'" by blast
          with key up True Some cr show ?thesis
            by (simp add: server_api_chat_eq api_chat_success_path)
        qed
      qed
    qed
  qed
qed

text \<open>A database that would reject the error row, in a run that records the chat row.\<close>

theorem chat_implementations_agree_witness:
  "fst (server_api_chat sample_builtins coach_chat_only_env upstream_hi (sample_request (Obj []))
          empty_world)
     = \<lparr>status = 200, body = Some (Obj [(''reply'', Str ''Hi there'')])\<rparr>
   \<and> fst (api_chat sample_builtins coach_chat_only_env upstream_hi (sample_request (Obj []))
            empty_world)
     = \<lparr>status = 200, body = Some (Obj [(''reply'', Str ''Hi there'')])\<rparr>"
proof -
  let ?req = "sample_request (Obj [])"
  let ?r = "\<lparr>r_status = 200,
             r_text = ''{\"choices\":[{\"message\":{\"content\":\"Hi there\"}}]}''\<rparr>"
  have k: "env_or (OPENAI_API_KEY coach_chat_only_env) [] = ''sk-test''"
    by (simp add: coach_chat_only_env_def sample_env_def env_or_def)
  have u: "chat_upstream sample_builtins coach_chat_only_env upstream_hi ''sk-test''
             (js_or (req_body ?req) (Obj [])) = Inr ([], ?r)"
    by (simp add: chat_upstream_def sanitize_def clean_messages_def destructure_def
          upstream_object_eq upstream_hi_def sample_request_def js_or_def)
  have o: "ok ?r" by (simp add: ok_def)
  have h1: "\<forall>cl r. chat_upstream sample_builtins coach_chat_only_env upstream_hi
                     (env_or (OPENAI_API_KEY coach_chat_only_env) [])
                     (js_or (req_body ?req) (Obj [])) = Inr (cl, r)
                 \<and> \<not> ok r
               \<longrightarrow> (\<exists>w'. recordEvent coach_chat_only_env (chat_error_row ?req r) empty_world
                          = Inr w')"
    unfolding k u using o by simp
  have h2: "\<forall>cl r data cr.
                 chat_upstream sample_builtins coach_chat_only_env upstream_hi
                     (env_or (OPENAI_API_KEY coach_chat_only_env) [])
                     (js_or (req_body ?req) (Obj [])) = Inr (cl, r)
                 \<and> ok r
                 \<and> JSON_parse sample_builtins (r_text r) = Some data
                 \<and> chat_row sample_builtins coach_chat_only_env ?req
                       (js_or (req_body ?req) (Obj [])) cl (reply_of data) = Inr cr
               \<longrightarrow> (\<exists>w'. recordEvent coach_chat_only_env cr empty_world = Inr w')"
    unfolding k u
    by (auto simp: chat_row_def Let_def recordEvent_def coach_chat_only_env_def
          insert_params_def split: sum.splits)
  have s: "fst (server_api_chat sample_builtins coach_chat_only_env upstream_hi ?req empty_world)
     = \<lparr>status = 200, body = Some (Obj [(''reply'', Str ''Hi there'')])\<rparr>"
    unfolding server_api_chat_eq k u using o
    by (simp add: sample_builtins_def reply_of_def nullish_def)
  from chat_implementations_agree [of sample_builtins "Obj []" "[]" "[]" "[]"
         coach_chat_only_env upstream_hi ?req empty_world empty_world] h1 h2 s
  show ?thesis by simp
qed

text \<open>
  The claim as written fails when the INSERT rejects: on the same successful upstream
  response src/server.js answers 200 with the reply, part_000 answers 500 \<^verbatim>\<open>Proxy error\<close>.
\<close>

theorem chat_implementations_agree_counterexample:
  "server_api_chat sample_builtins rejecting_env upstream_hi (sample_request (Obj [])) empty_world
     = (\<lparr>status = 200, body = Some (Obj [(''reply'', Str ''Hi there'')])\<rparr>, empty_world)
   \<and> api_chat sample_builtins rejecting_env upstream_hi (sample_request (Obj [])) empty_world
     = (\<lparr>status = 500, body = Some (Obj [(''error'', Str ''Proxy error'')])\<rparr>,
        \<lparr>events = [], logged = [LoggerError QueryFailed ''Proxy error'']\<rparr>)"
  by (simp add: server_api_chat_eq api_chat_def chat_try_def chat_upstream_def sanitize_def
        clean_messages_def destructure_def upstream_object_eq upstream_hi_def sample_request_def
        js_or_def rejecting_env_def sample_env_def env_or_def ok_def recordEvent_def
        empty_world_def sample_builtins_def chat_row_def Let_def reply_of_def nullish_def
        send_json_def no_body_def)

section \<open>POST /api/track\<close>


lemma valid_event_iff:
  "truthy v \<and> is_string v \<longleftrightarrow> (\<exists>s. v = Str s \<and> s \<noteq> [])"
  by (cases v) auto

lemma api_track_invalid:
  assumes "\<not> (\<exists>s. get_prop (js_or (req_body req) (Obj [])) ''event'' = Str s \<and> s \<noteq> [])"
  shows "api_track b e rnd req w =
     (\<lparr>status = 400, body = Some (Obj [(''error'', Str ''Missing or invalid 'event' field'')])\<rparr>, w)"
  using assms valid_event_iff [of "get_prop (js_or (req_body req) (Obj [])) ''event''"]
  unfolding api_track_def Let_def by (auto simp: send_json_fixed)

lemma api_track_valid:
  assumes "get_prop (js_or (req_body req) (Obj [])) ''event'' = Str s" and "s \<noteq> []"
  shows "api_track b e rnd req w =
     (if num_less (sample_rate b e) (Fin 1) \<and> num_less (sample_rate b e) (Fin rnd) then
        (\<lparr>status = 200, body = Some (Obj [(''ok'', Bool True), (''sampled'', Bool False)])\<rparr>, w)
      else
        (case recordEvent e (track_row req (js_or (req_body req) (Obj []))) w of
           Inr w' \<Rightarrow> (\<lparr>status = 200, body = Some (Obj [(''ok'', Bool True)])\<rparr>, w')
         | Inl err \<Rightarrow>
             (\<lparr>status = 500, body = Some (Obj [(''error'', Str ''track failed'')])\<rparr>,
              w\<lparr>logged := logged w @ [LoggerError err ''track failed'']\<rparr>)))"
  using assms unfolding api_track_def Let_def
  by (simp add: send_json_fixed split: sum.splits)

lemma track_row_payload:
  "payload (track_row req bd) =
     (case get_prop bd ''payload'' of Obj kvs \<Rightarrow> Obj kvs | Arr xs \<Rightarrow> Arr xs | _ \<Rightarrow> Null)"
  by (cases "get_prop bd ''payload''") (simp_all add: track_row_def Let_def)

lemma insert_params_track:
  "insert_params (track_row req bd) ! 4 = step (track_row req bd)"
  "insert_params (track_row req bd) ! 6 = event_name (track_row req bd)"
  "insert_params (track_row req bd) ! 7 = payload (track_row req bd)"
proof -
  show "insert_params (track_row req bd) ! 4 = step (track_row req bd)"
    by (simp add: insert_params_def track_row_def Let_def)
  show "insert_params (track_row req bd) ! 6 = event_name (track_row req bd)"
    by (simp add: insert_params_def)
  show "insert_params (track_row req bd) ! 7 = payload (track_row req bd)"
    unfolding track_row_payload
    by (cases "get_prop bd ''payload''")
       (simp_all add: insert_params_def track_row_def Let_def js_or_def)
qed

text \<open>
  Claim C7, amended. For every /api/track request: if \<^verbatim>\<open>event\<close> is missing, empty or not
  a string, the response is 400 with an error body and nothing is recorded or logged.
  Otherwise the row built for the request has as \<^verbatim>\<open>event_name\<close> the first 64 characters
  of \<^verbatim>\<open>event\<close>, as \<^verbatim>\<open>step\<close> the supplied step when it is a finite number and \<^verbatim>\<open>null\<close>
  otherwise, and as \<^verbatim>\<open>payload\<close> the supplied payload when it is an object or an array and
  \<^verbatim>\<open>null\<close> otherwise; the INSERT receives these three values unchanged; and the handler
  either skips the row by sampling or hands it to \<^verbatim>\<open>recordEvent\<close>, answering 200 when that
  returns and 500 when it raises.
\<close>

theorem track_validation:
  "(\<not> (\<exists>s. get_prop (js_or (req_body req) (Obj [])) ''event'' = Str s \<and> s \<noteq> []) \<longrightarrow>
      api_track b e rnd req w =
        (\<lparr>status = 400, body = Some (Obj [(''error'', Str ''Missing or invalid 'event' field'')])\<rparr>, w))
   \<and> (\<forall>s. get_prop (js_or (req_body req) (Obj [])) ''event'' = Str s \<and> s \<noteq> [] \<longrightarrow>
        (\<exists>tr. tr = track_row req (js_or (req_body req) (Obj []))
          \<and> event_name tr = Str (take 64 s)
          \<and> step tr = (if isFinite (get_prop (js_or (req_body req) (Obj [])) ''step'')
                       then get_prop (js_or (req_body req) (Obj [])) ''step'' else Null)
          \<and> payload tr = (case get_prop (js_or (req_body req) (Obj [])) ''payload'' of
                            Obj kvs \<Rightarrow> Obj kvs | Arr xs \<Rightarrow> Arr xs | _ \<Rightarrow> Null)
          \<and> insert_params tr ! 4 = step tr
          \<and> insert_params tr ! 6 = event_name tr
          \<and> insert_params tr ! 7 = payload tr
          \<and> api_track b e rnd req w =
              (if num_less (sample_rate b e) (Fin 1) \<and> num_less (sample_rate b e) (Fin rnd) then
                 (\<lparr>status = 200,
                   body = Some (Obj [(''ok'', Bool True), (''sampled'', Bool False)])\<rparr>, w)
               else
                 (case recordEvent e tr w of
                    Inr w' \<Rightarrow> (\<lparr>status = 200, body = Some (Obj [(''ok'', Bool True)])\<rparr>, w')
                  | Inl err \<Rightarrow>
                      (\<lparr>status = 500, body = Some (Obj [(''error'', Str ''track failed'')])\<rparr>,
                       w\<lparr>logged := logged w @ [LoggerError err ''track failed'']\<rparr>)))))"
proof (intro conjI allI impI)
  assume "\<not> (\<exists>s. get_prop (js_or (req_body req) (Obj [])) ''event'' = Str s \<and> s \<noteq> [])"
  then show "api_track b e rnd req w =
        (\<lparr>status = 400, body = Some (Obj [(''error'', Str ''Missing or invalid 'event' field'')])\<rparr>, w)"
    by (rule api_track_invalid)
next
  fix s
  let ?bd = "js_or (req_body req) (Obj [])"
  assume ev: "get_prop ?bd ''event'' = Str s \<and> s \<noteq> []"
  have n: "event_name (track_row req ?bd) = Str (take 64 s)"
    using ev by (simp add: track_row_def Let_def)
  have st: "step (track_row req ?bd)
      = (if isFinite (get_prop ?bd ''step'') then get_prop ?bd ''step'' else Null)"
    by (simp add: track_row_def Let_def)
  from ev n st track_row_payload [of req ?bd] insert_params_track [of req ?bd]
    api_track_valid [of req s b e rnd w]
  show "\<exists>tr. tr = track_row req ?bd
          \<and> event_name tr = Str (take 64 s)
          \<and> step tr = (if isFinite (get_prop ?bd ''step'') then get_prop ?bd ''step'' else Null)
          \<and> payload tr = (case get_prop ?bd ''payload'' of
                            Obj kvs \<Rightarrow> Obj kvs | Arr xs \<Rightarrow> Arr xs | _ \<Rightarrow> Null)
          \<and> insert_params tr ! 4 = step tr
          \<and> insert_params tr ! 6 = event_name tr
          \<and> insert_params tr ! 7 = payload tr
          \<and> api_track b e rnd req w =
              (if num_less (sample_rate b e) (Fin 1) \<and> num_less (sample_rate b e) (Fin rnd) then
                 (\<lparr>status = 200,
                   body = Some (Obj [(''ok'', Bool True), (''sampled'', Bool False)])\<rparr>, w)
               else
                 (case recordEvent e tr w of
                    Inr w' \<Rightarrow> (\<lparr>status = 200, body = Some (Obj [(''ok'', Bool True)])\<rparr>, w')
                  | Inl err \<Rightarrow>
                      (\<lparr>status = 500, body = Some (Obj [(''error'', Str ''track failed'')])\<rparr>,
                       w\<lparr>logged := logged w @ [LoggerError err ''track failed'']\<rparr>)))"
    by simp
qed

lemma sample_rate_unset:
  "ANALYTICS_SAMPLE e = None \<Longrightarrow> round_binary64 b 1 = Fin 1 \<Longrightarrow> sample_rate b e = Fin 1"
  by (simp add: sample_rate_def StringToNumber_def trim_def is_ws_def
        parse_radix_def parse_unsigned_decimal_def is_digit_def parse_exponent_def
        nat_of_digits_def digit_of_def pow10_def)

lemma sample_rate_samples [simp]:
  "sample_rate sample_builtins sample_env = Fin 1"
  "sample_rate sample_builtins rejecting_env = Fin 1"
  "sample_rate sample_builtins accepting_env = Fin 1"
  by (rule sample_rate_unset;
      simp add: sample_env_def rejecting_env_def accepting_env_def sample_builtins_def)+

theorem track_validation_witness:
  "api_track sample_builtins sample_env 0 (sample_request (Obj [])) empty_world
     = (\<lparr>status = 400, body = Some (Obj [(''error'', Str ''Missing or invalid 'event' field'')])\<rparr>,
        empty_world)
   \<and> api_track sample_builtins sample_env 0
       (sample_request (Obj [(''event'', Str ''click''), (''step'', Num (Fin 3)),
                             (''payload'', Obj [(''x'', Bool True)])])) empty_world
     = (\<lparr>status = 200, body = Some (Obj [(''ok'', Bool True)])\<rparr>,
        \<lparr>events = [],
         logged = [LoggerInfo
                    [(''type'', Str ''analytics''), (''session_id'', Null),
                     (''user_agent'', Str ''curl/8''), (''ip'', Str ''127.0.0.1''),
                     (''page'', Null), (''step'', Num (Fin 3)), (''section_id'', Null),
                     (''event_name'', Str ''click''),
                     (''payload'', Obj [(''x'', Bool True)])]
                    ''event'']\<rparr>)"
proof -
  let ?bd = "Obj [(''event'', Str ''click''), (''step'', Num (Fin 3)),
                  (''payload'', Obj [(''x'', Bool True)])]"
  have h1: "\<not> (\<exists>s. get_prop (js_or (req_body (sample_request (Obj []))) (Obj [])) ''event''
                      = Str s \<and> s \<noteq> [])"
    by (simp add: sample_request_def js_or_def)
  have h2: "get_prop (js_or (req_body (sample_request ?bd)) (Obj [])) ''event'' = Str ''click''
            \<and> ''click'' \<noteq> []"
    by (simp add: sample_request_def js_or_def)
  have c1: "api_track sample_builtins sample_env 0 (sample_request (Obj [])) empty_world
     = (\<lparr>status = 400, body = Some (Obj [(''error'', Str ''Missing or invalid 'event' field'')])\<rparr>,
        empty_world)"
    using track_validation [of "sample_request (Obj [])" sample_builtins sample_env 0 empty_world]
      h1 by blast
  have "api_track sample_builtins sample_env 0 (sample_request ?bd) empty_world
     = (case recordEvent sample_env
               (track_row (sample_request ?bd) (js_or (req_body (sample_request ?bd)) (Obj [])))
               empty_world of
          Inr w' \<Rightarrow> (\<lparr>status = 200, body = Some (Obj [(''ok'', Bool True)])\<rparr>, w')
        | Inl err \<Rightarrow>
            (\<lparr>status = 500, body = Some (Obj [(''error'', Str ''track failed'')])\<rparr>,
             empty_world\<lparr>logged := logged empty_world @ [LoggerError err ''track failed'']\<rparr>))"
    using track_validation [of "sample_request ?bd" sample_builtins sample_env 0 empty_world]
      h2 by simp
  then have c2: "api_track sample_builtins sample_env 0 (sample_request ?bd) empty_world
     = (\<lparr>status = 200, body = Some (Obj [(''ok'', Bool True)])\<rparr>,
        \<lparr>events = [],
         logged = [LoggerInfo
                    [(''type'', Str ''analytics''), (''session_id'', Null),
                     (''user_agent'', Str ''curl/8''), (''ip'', Str ''127.0.0.1''),
                     (''page'', Null), (''step'', Num (Fin 3)), (''section_id'', Null),
                     (''event_name'', Str ''click''),
                     (''payload'', Obj [(''x'', Bool True)])]
                    ''event'']\<rparr>)"
    by (simp add: sample_request_def js_or_def recordEvent_def sample_env_def
          track_row_def row_props_def header_def clientIp_def empty_world_def Let_def)
  from c1 c2 show ?thesis by simp
qed

text \<open>
  The claim as written fails on a payload that is an array: \<^verbatim>\<open>typeof\<close> of an array is
  \<^verbatim>\<open>"object"\<close>, so the row keeps the array instead of \<^verbatim>\<open>null\<close>.
\<close>

theorem track_validation_counterexample:
  "api_track sample_builtins sample_env 0
     (sample_request (Obj [(''event'', Str ''click''), (''payload'', Arr [Num (Fin 1)])]))
     empty_world
   = (\<lparr>status = 200, body = Some (Obj [(''ok'', Bool True)])\<rparr>,
      \<lparr>events = [],
       logged = [LoggerInfo
                  [(''type'', Str ''analytics''), (''session_id'', Null),
                   (''user_agent'', Str ''curl/8''), (''ip'', Str ''127.0.0.1''),
                   (''page'', Null), (''step'', Null), (''section_id'', Null),
                   (''event_name'', Str ''click''),
                   (''payload'', Arr [Num (Fin 1)])]
                  ''event'']\<rparr>)"
  by (simp add: api_track_def Let_def send_json_def no_body_def)
     (simp add: sample_request_def js_or_def recordEvent_def
        track_row_def row_props_def header_def clientIp_def empty_world_def Let_def
        sample_env_def send_json_def no_body_def)

section \<open>A failing record\<close>

text \<open>
  Claim C1, amended. Without a database \<^verbatim>\<open>recordEvent\<close> never raises. When it raises (the
  INSERT rejects), the error is caught by the \<^verbatim>\<open>catch\<close> of the handler that awaited it and
  logged, nothing is stored, and the response is 500: \<^verbatim>\<open>{error: "track failed"}\<close> from
  /api/track, \<^verbatim>\<open>{error: "Proxy error"}\<close> from /api/chat, on its error path and on its
  success path alike.
\<close>

theorem record_failure_caught:
  "(pool e = None \<longrightarrow> (\<exists>w'. recordEvent e r w = Inr w'))
   \<and> (\<forall>s err.
         get_prop (js_or (req_body req) (Obj [])) ''event'' = Str s \<and> s \<noteq> []
       \<and> \<not> (num_less (sample_rate b e) (Fin 1) \<and> num_less (sample_rate b e) (Fin rnd))
       \<and> recordEvent e (track_row req (js_or (req_body req) (Obj []))) w = Inl err
       \<longrightarrow> api_track b e rnd req w =
             (\<lparr>status = 500, body = Some (Obj [(''error'', Str ''track failed'')])\<rparr>,
              w\<lparr>logged := logged w @ [LoggerError err ''track failed'']\<rparr>))
   \<and> (\<forall>clean up err.
         env_or (OPENAI_API_KEY e) [] \<noteq> []
       \<and> chat_upstream b e fetch (env_or (OPENAI_API_KEY e) []) (js_or (req_body req) (Obj []))
           = Inr (clean, up)
       \<and> \<not> ok up
       \<and> recordEvent e (chat_error_row req up) w = Inl err
       \<longrightarrow> api_chat b e fetch req w =
             (\<lparr>status = 500, body = Some (Obj [(''error'', Str ''Proxy error'')])\<rparr>,
              w\<lparr>logged := logged w @ [LoggerError err ''Proxy error'']\<rparr>))
   \<and> (\<forall>clean up data cr err.
         env_or (OPENAI_API_KEY e) [] \<noteq> []
       \<and> chat_upstream b e fetch (env_or (OPENAI_API_KEY e) []) (js_or (req_body req) (Obj []))
           = Inr (clean, up)
       \<and> ok up
       \<and> JSON_parse b (r_text up) = Some data
       \<and> chat_row b e req (js_or (req_body req) (Obj [])) clean (reply_of data) = Inr cr
       \<and> recordEvent e cr w = Inl err
       \<longrightarrow> api_chat b e fetch req w =
             (\<lparr>status = 500, body = Some (Obj [(''error'', Str ''Proxy error'')])\<rparr>,
              w\<lparr>logged := logged w @ [LoggerError err ''Proxy error'']\<rparr>))"
proof (intro conjI allI impI)
  assume "pool e = None"
  then show "\<exists>w'. recordEvent e r w = Inr w'" by (simp add: recordEvent_no_pool)
next
  fix s err
  assume "get_prop (js_or (req_body req) (Obj [])) ''event'' = Str s \<and> s \<noteq> []
       \<and> \<not> (num_less (sample_rate b e) (Fin 1) \<and> num_less (sample_rate b e) (Fin rnd))
       \<and> recordEvent e (track_row req (js_or (req_body req) (Obj []))) w = Inl err"
  then show "api_track b e rnd req w =
             (\<lparr>status = 500, body = Some (Obj [(''error'', Str ''track failed'')])\<rparr>,
              w\<lparr>logged := logged w @ [LoggerError err ''track failed'']\<rparr>)"
    using api_track_valid [of req s b e rnd w] by auto
next
  fix clean up err
  assume "env_or (OPENAI_API_KEY e) [] \<noteq> []
       \<and> chat_upstream b e fetch (env_or (OPENAI_API_KEY e) []) (js_or (req_body req) (Obj []))
           = Inr (clean, up)
       \<and> \<not> ok up
       \<and> recordEvent e (chat_error_row req up) w = Inl err"
  then show "api_chat b e fetch req w =
             (\<lparr>status = 500, body = Some (Obj [(''error'', Str ''Proxy error'')])\<rparr>,
              w\<lparr>logged := logged w @ [LoggerError err ''Proxy error'']\<rparr>)"
    using api_chat_error_path [of e b fetch req clean up w] by simp
next
  fix clean up data cr err
  assume "env_or (OPENAI_API_KEY e) [] \<noteq> []
       \<and> chat_upstream b e fetch (env_or (OPENAI_API_KEY e) []) (js_or (req_body req) (Obj []))
           = Inr (clean, up)
       \<and> ok up
       \<and> JSON_parse b (r_text up) = Some data
       \<and> chat_row b e req (js_or (req_body req) (Obj [])) clean (reply_of data) = Inr cr
       \<and> recordEvent e cr w = Inl err"
  then show "api_chat b e fetch req w =
             (\<lparr>status = 500, body = Some (Obj [(''error'', Str ''Proxy error'')])\<rparr>,
              w\<lparr>logged := logged w @ [LoggerError err ''Proxy error'']\<rparr>)"
    using api_chat_success_path [of e b fetch req clean up data cr w] by simp
qed

theorem record_failure_caught_witness:
  "api_track sample_builtins rejecting_env 0 (sample_request (Obj [(''event'', Str ''click'')]))
     empty_world
   = (\<lparr>status = 500, body = Some (Obj [(''error'', Str ''track failed'')])\<rparr>,
      \<lparr>events = [], logged = [LoggerError QueryFailed ''track failed'']\<rparr>)
   \<and> api_chat sample_builtins rejecting_env upstream_429
       (sample_request (Obj [(''event'', Str ''click'')])) empty_world
   = (\<lparr>status = 500, body = Some (Obj [(''error'', Str ''Proxy error'')])\<rparr>,
      \<lparr>events = [], logged = [LoggerError QueryFailed ''Proxy error'']\<rparr>)"
proof -
  let ?req = "sample_request (Obj [(''event'', Str ''click'')])"
  let ?up = "\<lparr>r_status = 429, r_text = ''rate limited''\<rparr>"
  note inst = record_failure_caught [of rejecting_env "track_row ?req (Obj [])" empty_world
         ?req sample_builtins 0 upstream_429]
  have h: "get_prop (js_or (req_body ?req) (Obj [])) ''event'' = Str ''click'' \<and> ''click'' \<noteq> []
       \<and> \<not> (num_less (sample_rate sample_builtins rejecting_env) (Fin 1)
              \<and> num_less (sample_rate sample_builtins rejecting_env) (Fin 0))
       \<and> recordEvent rejecting_env (track_row ?req (js_or (req_body ?req) (Obj []))) empty_world
           = Inl QueryFailed"
  proof (intro conjI)
    show "get_prop (js_or (req_body ?req) (Obj [])) ''event'' = Str ''click''"
      by (simp add: sample_request_def js_or_def)
    show "''click'' \<noteq> []" by simp
    show "\<not> (num_less (sample_rate sample_builtins rejecting_env) (Fin 1)
              \<and> num_less (sample_rate sample_builtins rejecting_env) (Fin 0))"
      by simp
    show "recordEvent rejecting_env (track_row ?req (js_or (req_body ?req) (Obj []))) empty_world
           = Inl QueryFailed"
      by (simp add: recordEvent_def rejecting_env_def)
  qed
  have g: "env_or (OPENAI_API_KEY rejecting_env) [] \<noteq> []
       \<and> chat_upstream sample_builtins rejecting_env upstream_429
             (env_or (OPENAI_API_KEY rejecting_env) []) (js_or (req_body ?req) (Obj []))
           = Inr ([], ?up)
       \<and> \<not> ok ?up
       \<and> recordEvent rejecting_env (chat_error_row ?req ?up) empty_world = Inl QueryFailed"
    by (simp add: rejecting_env_def sample_env_def env_or_def chat_upstream_def sanitize_def
          clean_messages_def destructure_def upstream_object_eq upstream_429_def
          sample_request_def js_or_def ok_def recordEvent_def)
  from inst h
  have "api_track sample_builtins rejecting_env 0 ?req empty_world
     = (\<lparr>status = 500, body = Some (Obj [(''error'', Str ''track failed'')])\<rparr>,
        empty_world\<lparr>logged := logged empty_world @ [LoggerError QueryFailed ''track failed'']\<rparr>)"
    by blast
  moreover from inst g
  have "api_chat sample_builtins rejecting_env upstream_429 ?req empty_world
     = (\<lparr>status = 500, body = Some (Obj [(''error'', Str ''Proxy error'')])\<rparr>,
        empty_world\<lparr>logged := logged empty_world @ [LoggerError QueryFailed ''Proxy error'']\<rparr>)"
    by blast
  ultimately show ?thesis by (simp add: empty_world_def)
qed

text \<open>
  The claim as written fails on /api/track with a database that rejects the INSERT: the
  response is 500, where the same request answers 200 when the INSERT is accepted.
\<close>

theorem record_failure_counterexample:
  "api_track sample_builtins rejecting_env 0 (sample_request (Obj [(''event'', Str ''click'')]))
     empty_world
   = (\<lparr>status = 500, body = Some (Obj [(''error'', Str ''track failed'')])\<rparr>,
      \<lparr>events = [], logged = [LoggerError QueryFailed ''track failed'']\<rparr>)
   \<and> api_track sample_builtins accepting_env 0 (sample_request (Obj [(''event'', Str ''click'')]))
     empty_world
   = (\<lparr>status = 200, body = Some (Obj [(''ok'', Bool True)])\<rparr>,
      \<lparr>events = [[Null, Str ''curl/8'', Str ''127.0.0.1'', Null, Null, Null, Str ''click'', Null]],
       logged = []\<rparr>)"
  by (simp add: api_track_def Let_def send_json_def no_body_def)
     (simp add: sample_request_def js_or_def recordEvent_def
        track_row_def insert_params_def header_def clientIp_def empty_world_def Let_def
        rejecting_env_def accepting_env_def sample_env_def send_json_def no_body_def)

end
